theory Spec2Isabelle
  imports Complex_Main
begin

section \<open>Numbers, strings and platform values\<close>

text \<open>
  The program is the \<^verbatim>\<open>HTMLText\<close> display object of \<^verbatim>\<open>src/index.ts\<close>, together with its
  earlier revision \<^verbatim>\<open>src/index.js\<close>.  Functions of the TypeScript revision keep the source's
  names; the functions of the JavaScript revision that differ carry the suffix \<open>_js\<close>.  The
  setters for text, style and resolution, the render hooks and \<^verbatim>\<open>sanitiseText\<close> are the same
  in both files and are modelled once.

  JavaScript numbers are doubles.  The model keeps a finite double as the \<^typ>\<open>real\<close> it
  denotes and takes the rounding of an exact result to the nearest double as a function of
  the platform, \<open>roundDouble\<close>: every sum, difference, product and quotient of the source
  is the rounded exact result, while \<^verbatim>\<open>Math.ceil\<close>, \<^verbatim>\<open>Math.max\<close>, \<^verbatim>\<open>Math.abs\<close> and
  negation are exact.  \<^verbatim>\<open>NaN\<close> and the infinities are outside the model (in particular a
  division by a zero resolution is \<open>0\<close> here and an infinity or \<^verbatim>\<open>NaN\<close> in the browser).
  The width and height of a canvas are \<^typ>\<open>int\<close>, converted on assignment as the
  \<^verbatim>\<open>unsigned long\<close> attribute of the element converts them.  Strings are
  \<^typ>\<open>string\<close>; the three patterns of \<^verbatim>\<open>sanitiseText\<close> are ASCII, so a character beyond
  ASCII never takes part in a match, whatever its encoding.  A source field \<^verbatim>\<open>_name\<close> is
  \<open>p_name\<close> here.
\<close>

datatype error = TypeError

datatype ref = Null | Ref

datatype js_text = Undefined | JsNull | Str string

subsection \<open>sanitiseText: three global, case-insensitive replacements\<close>

text \<open>
  \<^verbatim>\<open>Canonicalize\<close> of a regular expression with the \<^verbatim>\<open>i\<close> flag (and without \<^verbatim>\<open>u\<close>)
  compares the upper-case forms of two characters; on ASCII this maps \<^verbatim>\<open>a-z\<close> to
  \<^verbatim>\<open>A-Z\<close> and leaves every other character alone.
\<close>

definition canonicalize :: "char \<Rightarrow> char" where
  "canonicalize c =
     (let n = (of_char c :: nat) in if 97 \<le> n \<and> n \<le> 122 then char_of (n - 32) else c)"

text \<open>\<open>match_ci pat s\<close>: the literal pattern matches at the start of \<open>s\<close>, ignoring case.\<close>

fun match_ci :: "string \<Rightarrow> string \<Rightarrow> bool" where
  "match_ci [] s = True"
| "match_ci (p # ps) [] = False"
| "match_ci (p # ps) (c # cs) = (canonicalize p = canonicalize c \<and> match_ci ps cs)"

text \<open>
  \<^verbatim>\<open>text.replace(/pat/gi, rep)\<close> for a non-empty literal pattern: the subject is scanned from
  the left; a match is replaced and the scan goes on behind it, any other character is kept.
\<close>

fun replace_gi :: "string \<Rightarrow> string \<Rightarrow> string \<Rightarrow> string" where
  "replace_gi pat rep [] = []"
| "replace_gi pat rep (c # cs) =
     (if match_ci pat (c # cs) then rep @ replace_gi pat rep (drop (length pat - 1) cs)
      else c # replace_gi pat rep cs)"

definition sanitiseText :: "string \<Rightarrow> string" where
  "sanitiseText text =
     replace_gi ''&nbsp;'' ''&#160;''
       (replace_gi ''<hr>'' ''<hr/>'' (replace_gi ''<br>'' ''<br/>'' text))"

text \<open>
  The specification's reading of the same function, in one pass: at every position an
  occurrence of one of the three substrings (in any letter case) is replaced, and every
  other character is copied.
\<close>

fun sanitise_spec :: "string \<Rightarrow> string" where
  "sanitise_spec [] = []"
| "sanitise_spec (c # cs) =
     (if match_ci ''<br>'' (c # cs) then ''<br/>'' @ sanitise_spec (drop 3 cs)
      else if match_ci ''<hr>'' (c # cs) then ''<hr/>'' @ sanitise_spec (drop 3 cs)
      else if match_ci ''&nbsp;'' (c # cs) then ''&#160;'' @ sanitise_spec (drop 5 cs)
      else c # sanitise_spec cs)"

section \<open>The data model\<close>

subsection \<open>Objects of the host engine and of the browser\<close>

record rectangle =
  rect_x :: real
  rect_y :: real
  rect_width :: real
  rect_height :: real

definition new_Rectangle :: rectangle where
  "new_Rectangle = \<lparr>rect_x = 0, rect_y = 0, rect_width = 0, rect_height = 0\<rparr>"

record baseTexture =
  realWidth :: int
  realHeight :: int
  bt_resolution :: real

record texture =
  tex_orig :: rectangle
  tex_trim :: rectangle
  tex_frame :: rectangle
  tex_base :: baseTexture

text \<open>
  Of a \<^verbatim>\<open>TextStyle\<close> the model keeps the change counter and the two fields that reach the
  canvas and the texture.  The other fields only feed the CSS text of the measured element,
  which the model represents by the style itself.
\<close>

record textStyle =
  styleID :: int
  padding :: real
  trim :: bool

record sprite =
  scale_x :: real
  scale_y :: real
  p_width :: real
  p_height :: real

record canvas =
  canvas_width :: int
  canvas_height :: int

record domElement =
  innerHTML :: string
  dom_style :: "textStyle option"

record svgRoot =
  svg_width :: "int option"
  svg_height :: "int option"

record foreignObject =
  fo_child :: bool

text \<open>The serialised SVG document that is handed to the image decoder.\<close>

record svgDocument =
  doc_width :: int
  doc_height :: int
  doc_style :: textStyle
  doc_html :: string

datatype image_src = NoSrc | DataURL svgDocument

text \<open>The values captured by the \<^verbatim>\<open>onload\<close> closure of \<^verbatim>\<open>updateText\<close>.\<close>

record handler =
  h_resolution :: real
  h_width :: real
  h_height :: real

record htmlImage =
  src :: image_src
  onload :: "handler option"
  onerror :: "handler option"

type_synonym imageData = "nat list"

record trimmed =
  t_width :: int
  t_height :: int
  t_data :: "imageData option"

text \<open>
  What the instance does to the platform, in order: a measurement of the DOM element (with
  the box the browser returned), a decode started by assigning a data URL to the image, and
  the calls on the 2D drawing context.
\<close>

datatype effect =
    Measured "real \<times> real"
  | DecodeStarted svgDocument
  | Scale real real
  | ClearRect real real real real
  | DrawImage image_src real real
  | PutImageData imageData

datatype destroyOptions = NoOptions | BoolOption bool | Options bool bool bool

subsection \<open>The display object\<close>

text \<open>
  The canvas and the image are objects that the closure of \<^verbatim>\<open>updateText\<close> and the browser
  keep reaching after \<^verbatim>\<open>destroy\<close> has set the instance's fields to \<^verbatim>\<open>null\<close>; the model
  therefore holds each object (\<open>canvas_obj\<close>, \<open>image_obj\<close>) apart from the field that refers
  to it (\<open>canvas\<close>, \<open>p_image\<close>).  The source field \<^verbatim>\<open>context\<close> is \<open>context2d\<close>; what is
  done through it is recorded in \<open>effects\<close>.  The fields \<open>p_domElement\<close>, \<open>p_svgRoot\<close> and
  \<open>p_foreignObject\<close> belong to the TypeScript revision, \<open>p_parser\<close> to the JavaScript one.
\<close>

record htmlText =
  sprite :: sprite
  texture :: "texture option"
  canvas_obj :: canvas
  image_obj :: htmlImage
  effects :: "effect list"
  p_domElement :: "domElement option"
  p_svgRoot :: "svgRoot option"
  p_foreignObject :: "foreignObject option"
  p_parser :: ref
  p_image :: ref
  canvas :: ref
  context2d :: ref
  p_resolution :: real
  p_text :: "string option"
  p_style :: "textStyle option"
  p_autoResolution :: bool
  p_loading :: bool
  localStyleID :: int
  dirty :: bool

text \<open>
  What the source calls and this repository does not contain, of the browser and of the
  host engine:
  \<^item> \<open>roundDouble\<close>, the rounding of an exact result to a double;
  \<^item> \<open>templateDiv\<close>, for \<^verbatim>\<open>index.js\<close> only: whether \<^verbatim>\<open>DOMParser\<close>, given the SVG text built
    from this style and this text, yields a document in which \<^verbatim>\<open>querySelector('div')\<close>
    finds an element (a text that is not well-formed XML yields an error document);
  \<^item> \<^verbatim>\<open>utils.trimCanvas\<close>, which reads the pixels (a function of the canvas and of what was
    drawn);
  \<^item> \<^verbatim>\<open>Sprite._onTextureUpdate\<close>, which adjusts the scale from the new texture;
  \<^item> \<^verbatim>\<open>BaseTexture.setRealSize\<close> with the arguments of the call, which may reach back into
    the texture through the update it announces;
  \<^item> \<^verbatim>\<open>Sprite.destroy\<close>.
\<close>

record host =
  roundDouble :: "real \<Rightarrow> real"
  templateDiv :: "textStyle \<Rightarrow> string \<Rightarrow> bool"
  trimCanvas :: "canvas \<Rightarrow> effect list \<Rightarrow> trimmed"
  onTextureUpdate :: "texture \<Rightarrow> sprite \<Rightarrow> sprite"
  setRealSize :: "int \<Rightarrow> int \<Rightarrow> real \<Rightarrow> texture \<Rightarrow> texture"
  superDestroy :: "destroyOptions \<Rightarrow> sprite \<times> texture option \<Rightarrow> sprite \<times> texture option"

text \<open>The four arithmetic operations of the source, on doubles.\<close>

definition addD :: "host \<Rightarrow> real \<Rightarrow> real \<Rightarrow> real" where
  "addD h a b = roundDouble h (a + b)"

definition subD :: "host \<Rightarrow> real \<Rightarrow> real \<Rightarrow> real" where
  "subD h a b = roundDouble h (a - b)"

definition mulD :: "host \<Rightarrow> real \<Rightarrow> real \<Rightarrow> real" where
  "mulD h a b = roundDouble h (a * b)"

definition divD :: "host \<Rightarrow> real \<Rightarrow> real \<Rightarrow> real" where
  "divD h a b = roundDouble h (a / b)"

text \<open>
  An assignment to \<^verbatim>\<open>canvas.width\<close> or \<^verbatim>\<open>canvas.height\<close>: the integer is converted to an
  \<^verbatim>\<open>unsigned long\<close> (modulo \<open>2 ^ 32\<close>) and kept when it is at most \<open>2147483647\<close>; otherwise
  the attribute takes its default, 300 for the width and 150 for the height.
\<close>

definition canvasDimension :: "int \<Rightarrow> int \<Rightarrow> int" where
  "canvasDimension dflt v = (let u = v mod 2 ^ 32 in if u \<le> 2147483647 then u else dflt)"

section \<open>The setters shared by both revisions\<close>

text \<open>\<^verbatim>\<open>String(text === '' || text === null || text === undefined ? ' ' : text)\<close>\<close>

definition coerceText :: "js_text \<Rightarrow> string" where
  "coerceText text =
     (case text of Undefined \<Rightarrow> '' '' | JsNull \<Rightarrow> '' ''
      | Str t \<Rightarrow> (if t = [] then '' '' else t))"

definition set_text :: "js_text \<Rightarrow> htmlText \<Rightarrow> htmlText" where
  "set_text text this =
     (let text = sanitiseText (coerceText text)
      in if p_text this = Some text then this
         else this\<lparr>p_text := Some text, dirty := True\<rparr>)"

definition set_resolution :: "real \<Rightarrow> htmlText \<Rightarrow> htmlText" where
  "set_resolution v this =
     (let this1 = this\<lparr>p_autoResolution := False\<rparr>
      in if p_resolution this1 = v then this1
         else this1\<lparr>p_resolution := v, dirty := True\<rparr>)"

text \<open>
  The style setter stores a \<^verbatim>\<open>TextStyle\<close>: its argument, or the one the host builds from a
  plain options object; \<open>style\<close> is that instance.
\<close>

definition set_style :: "textStyle \<Rightarrow> htmlText \<Rightarrow> htmlText" where
  "set_style style this = this\<lparr>p_style := Some style, localStyleID := - 1, dirty := True\<rparr>"

definition onStyleChange :: "htmlText \<Rightarrow> htmlText" where
  "onStyleChange this = this\<lparr>dirty := True\<rparr>"

text \<open>
  A change that the application makes to the shared \<^verbatim>\<open>TextStyle\<close> object itself (the host
  bumps its \<^verbatim>\<open>styleID\<close>): the instance sees the new contents through its reference.
\<close>

definition styleMutated :: "textStyle \<Rightarrow> htmlText \<Rightarrow> htmlText" where
  "styleMutated style this =
     (case p_style this of None \<Rightarrow> this | Some old \<Rightarrow> this\<lparr>p_style := Some style\<rparr>)"

section \<open>The TypeScript revision\<close>

text \<open>Lines 181 and 182 of \<^verbatim>\<open>index.ts\<close> (157 and 158 of \<^verbatim>\<open>index.js\<close>), for one axis.\<close>

definition canvasSize :: "host \<Rightarrow> real \<Rightarrow> real \<Rightarrow> real \<Rightarrow> int" where
  "canvasSize h measured pad resolution =
     \<lceil>mulD h (addD h (max 1 measured) (mulD h pad 2)) resolution\<rceil>"

text \<open>
  \<^verbatim>\<open>updateTexture\<close>.  A field that is \<^verbatim>\<open>null\<close> where the source dereferences it raises a
  \<^verbatim>\<open>TypeError\<close>.
\<close>

definition updateTexture :: "host \<Rightarrow> htmlText \<Rightarrow> error + htmlText" where
  "updateTexture h this =
     (case p_style this of None \<Rightarrow> Inl TypeError | Some style \<Rightarrow>
     (case texture this of None \<Rightarrow> Inl TypeError | Some tex \<Rightarrow>
      if canvas this = Null then Inl TypeError
      else if trim style \<and> context2d this = Null
              \<and> t_data (trimCanvas h (canvas_obj this) (effects this)) \<noteq> None
      then Inl TypeError
      else
        let resolution = p_resolution this;
            t = trimCanvas h (canvas_obj this) (effects this);
            this1 = (if trim style then
                       (case t_data t of None \<Rightarrow> this
                        | Some data \<Rightarrow>
                            this\<lparr>canvas_obj := (canvas_obj this)
                                    \<lparr>canvas_width := canvasDimension 300 (t_width t),
                                     canvas_height := canvasDimension 150 (t_height t)\<rparr>,
                                 effects := effects this @ [PutImageData data]\<rparr>)
                     else this);
            pad = (if trim style then 0 else padding style);
            cv = canvas_obj this1;
            fw = divD h (real_of_int (canvas_width cv)) resolution;
            fh = divD h (real_of_int (canvas_height cv)) resolution;
            tex1 = tex\<lparr>tex_trim := (tex_trim tex)
                         \<lparr>rect_width := fw, rect_height := fh, rect_x := - pad, rect_y := - pad\<rparr>,
                       tex_frame := (tex_frame tex)\<lparr>rect_width := fw, rect_height := fh\<rparr>,
                       tex_orig := (tex_orig tex)
                         \<lparr>rect_width := subD h fw (mulD h pad 2),
                          rect_height := subD h fh (mulD h pad 2)\<rparr>\<rparr>;
            sp = onTextureUpdate h tex1 (sprite this1);
            tex2 = setRealSize h (canvas_width cv) (canvas_height cv) resolution tex1
        in Inr (this1\<lparr>sprite := sp, texture := Some tex2, dirty := False\<rparr>)))"

text \<open>
  The \<^verbatim>\<open>onload\<close> closure of \<^verbatim>\<open>updateText\<close> (lines 191 to 204).  It draws through the
  context and the canvas it captured, whatever the instance's fields hold by then.
\<close>

definition image_onload :: "host \<Rightarrow> handler \<Rightarrow> htmlText \<Rightarrow> error + htmlText" where
  "image_onload h cl this =
     (let cv = canvas_obj this;
          this1 = this\<lparr>effects := effects this @
                    [Scale (h_resolution cl) (h_resolution cl),
                     ClearRect 0 0 (real_of_int (canvas_width cv)) (real_of_int (canvas_height cv)),
                     DrawImage (src (image_obj this)) (h_width cl) (h_height cl)],
                   image_obj := (image_obj this)\<lparr>src := NoSrc, onload := None\<rparr>,
                   p_loading := False\<rparr>
      in updateTexture h this1)"

text \<open>
  \<^verbatim>\<open>updateText\<close>; \<open>box\<close> is the width and height that \<^verbatim>\<open>getBoundingClientRect\<close> returns
  for the styled element in this call.  Lines 97 to 159 build the CSS text from the style
  alone and change no field; the element and the SVG document carry the style in its place.
\<close>

definition updateText ::
    "host \<Rightarrow> bool \<Rightarrow> real \<times> real \<Rightarrow> htmlText \<Rightarrow> error + htmlText" where
  "updateText h respectDirty box this =
     (case p_style this of None \<Rightarrow> Inl TypeError | Some style \<Rightarrow>
      let resolution = p_resolution this;
          this1 = (if localStyleID this \<noteq> styleID style
                   then this\<lparr>dirty := True, localStyleID := styleID style\<rparr> else this)
      in if \<not> dirty this1 \<and> respectDirty then Inr this1
         else
          (case p_domElement this1 of None \<Rightarrow> Inl TypeError | Some el \<Rightarrow>
          (case p_foreignObject this1 of None \<Rightarrow> Inl TypeError | Some fo \<Rightarrow>
          (case p_svgRoot this1 of None \<Rightarrow> Inl TypeError | Some svg \<Rightarrow>
           if canvas this1 = Null then Inl TypeError
           else if \<not> p_loading this1 \<and> p_image this1 = Null then Inl TypeError
           else
             let el1 = el\<lparr>innerHTML := (case p_text this1 of None \<Rightarrow> [] | Some t \<Rightarrow> t),
                            dom_style := Some style\<rparr>;
                 width = \<lceil>fst box\<rceil>;
                 height = \<lceil>snd box\<rceil>;
                 this2 = this1\<lparr>
                   p_domElement := Some el1,
                   effects := effects this1 @ [Measured box],
                   p_foreignObject := Some (fo\<lparr>fo_child := True\<rparr>),
                   p_svgRoot := Some (svg\<lparr>svg_width := Some width, svg_height := Some height\<rparr>),
                   canvas_obj := (canvas_obj this1)
                     \<lparr>canvas_width :=
                        canvasDimension 300
                          (canvasSize h (real_of_int width) (padding style) resolution),
                      canvas_height :=
                        canvasDimension 150
                          (canvasSize h (real_of_int height) (padding style) resolution)\<rparr>\<rparr>
             in if \<not> p_loading this2 then
                  let svgURL = \<lparr>doc_width = width, doc_height = height, doc_style = style,
                                  doc_html = innerHTML el1\<rparr>
                  in Inr (this2\<lparr>
                       p_loading := True,
                       image_obj := (image_obj this2)
                         \<lparr>src := DataURL svgURL,
                          onload := Some \<lparr>h_resolution = resolution,
                                           h_width = real_of_int width,
                                           h_height = real_of_int height\<rparr>\<rparr>,
                       effects := effects this2 @ [DecodeStarted svgURL]\<rparr>)
                else Inr this2))))"

text \<open>
  \<^verbatim>\<open>_render\<close> and \<^verbatim>\<open>_renderCanvas\<close> (the same body; the host's own rendering does not touch
  the fields of the model), \<^verbatim>\<open>getLocalBounds\<close> and \<^verbatim>\<open>_calculateBounds\<close>.
\<close>

definition followRenderer :: "real \<Rightarrow> htmlText \<Rightarrow> htmlText" where
  "followRenderer rendererResolution this =
     (if p_autoResolution this \<and> p_resolution this \<noteq> rendererResolution
      then this\<lparr>p_resolution := rendererResolution, dirty := True\<rparr> else this)"

definition render ::
    "host \<Rightarrow> real \<Rightarrow> real \<times> real \<Rightarrow> htmlText \<Rightarrow> error + htmlText" where
  "render h rendererResolution box this =
     updateText h True box (followRenderer rendererResolution this)"

definition renderCanvas ::
    "host \<Rightarrow> real \<Rightarrow> real \<times> real \<Rightarrow> htmlText \<Rightarrow> error + htmlText" where
  "renderCanvas h rendererResolution box this =
     updateText h True box (followRenderer rendererResolution this)"

definition getLocalBounds :: "host \<Rightarrow> real \<times> real \<Rightarrow> htmlText \<Rightarrow> error + htmlText" where
  "getLocalBounds h box this = updateText h True box this"

definition calculateBounds :: "host \<Rightarrow> real \<times> real \<Rightarrow> htmlText \<Rightarrow> error + htmlText" where
  "calculateBounds h box this = updateText h True box this"

definition destroy :: "host \<Rightarrow> destroyOptions \<Rightarrow> htmlText \<Rightarrow> error + htmlText" where
  "destroy h options this =
     (let (sp, tx) = superDestroy h options (sprite this, texture this);
          this1 = this\<lparr>sprite := sp, texture := tx, context2d := Null\<rparr>;
          this2 = (if canvas this1 = Ref
                   then this1\<lparr>canvas_obj := (canvas_obj this1)\<lparr>canvas_width := 0, canvas_height := 0\<rparr>\<rparr>
                   else this1);
          this3 = this2\<lparr>canvas := Null, p_style := None, p_svgRoot := None, p_domElement := None,
                        p_foreignObject := None\<rparr>
      in if p_image this3 = Null then Inl TypeError
         else Inr (this3\<lparr>image_obj := (image_obj this3)\<lparr>onload := None, src := NoSrc\<rparr>,
                        p_image := Null\<rparr>))"

text \<open>
  The accessors return the value read together with the instance after the refresh.
  \<^verbatim>\<open>utils.sign(x) || 1\<close> is \<open>- 1\<close> for a negative \<open>x\<close> and \<open>1\<close> otherwise.
\<close>

definition get_width ::
    "host \<Rightarrow> real \<times> real \<Rightarrow> htmlText \<Rightarrow> error + real \<times> htmlText" where
  "get_width h box this =
     (case updateText h True box this of Inl e \<Rightarrow> Inl e
      | Inr this1 \<Rightarrow>
          if canvas this1 = Null then Inl TypeError
          else Inr (divD h (mulD h \<bar>scale_x (sprite this1)\<bar>
                               (real_of_int (canvas_width (canvas_obj this1))))
                      (p_resolution this1), this1))"

definition get_height ::
    "host \<Rightarrow> real \<times> real \<Rightarrow> htmlText \<Rightarrow> error + real \<times> htmlText" where
  "get_height h box this =
     (case updateText h True box this of Inl e \<Rightarrow> Inl e
      | Inr this1 \<Rightarrow>
          if canvas this1 = Null then Inl TypeError
          else Inr (divD h (mulD h \<bar>scale_y (sprite this1)\<bar>
                               (real_of_int (canvas_height (canvas_obj this1))))
                      (p_resolution this1), this1))"

definition signOr1 :: "real \<Rightarrow> real" where
  "signOr1 x = (if sgn x = 0 then 1 else sgn x)"

definition set_width ::
    "host \<Rightarrow> real \<Rightarrow> real \<times> real \<Rightarrow> htmlText \<Rightarrow> error + htmlText" where
  "set_width h v box this =
     (case updateText h True box this of Inl e \<Rightarrow> Inl e
      | Inr this1 \<Rightarrow>
          if canvas this1 = Null then Inl TypeError
          else let s = signOr1 (scale_x (sprite this1))
               in Inr (this1\<lparr>sprite := (sprite this1)
                    \<lparr>scale_x := divD h (divD h (mulD h s v)
                                   (real_of_int (canvas_width (canvas_obj this1))))
                                 (p_resolution this1),
                     p_width := v\<rparr>\<rparr>))"

definition set_height ::
    "host \<Rightarrow> real \<Rightarrow> real \<times> real \<Rightarrow> htmlText \<Rightarrow> error + htmlText" where
  "set_height h v box this =
     (case updateText h True box this of Inl e \<Rightarrow> Inl e
      | Inr this1 \<Rightarrow>
          if canvas this1 = Null then Inl TypeError
          else let s = signOr1 (scale_y (sprite this1))
               in Inr (this1\<lparr>sprite := (sprite this1)
                    \<lparr>scale_y := divD h (divD h (mulD h s v)
                                   (real_of_int (canvas_height (canvas_obj this1))))
                                 (p_resolution this1),
                     p_height := v\<rparr>\<rparr>))"

text \<open>
  The constructor.  \<open>tex0\<close> is what \<^verbatim>\<open>Texture.from(canvas)\<close> returns, \<open>sp0\<close> the state the
  \<^verbatim>\<open>Sprite\<close> constructor leaves, \<open>settingsResolution\<close> the value of \<^verbatim>\<open>settings.RESOLUTION\<close>.
\<close>

definition new_HTMLText ::
    "js_text \<Rightarrow> textStyle \<Rightarrow> texture \<Rightarrow> sprite \<Rightarrow> real \<Rightarrow> htmlText" where
  "new_HTMLText text style tex0 sp0 settingsResolution =
     (let text = (case text of Undefined \<Rightarrow> Str [] | t \<Rightarrow> t);
          this = \<lparr>sprite = sp0,
                  texture = Some (tex0\<lparr>tex_orig := new_Rectangle, tex_trim := new_Rectangle\<rparr>),
                  canvas_obj = \<lparr>canvas_width = 3, canvas_height = 3\<rparr>,
                  image_obj = \<lparr>src = NoSrc, onload = None, onerror = None\<rparr>,
                  effects = [],
                  p_domElement = Some \<lparr>innerHTML = [], dom_style = None\<rparr>,
                  p_svgRoot = Some \<lparr>svg_width = None, svg_height = None\<rparr>,
                  p_foreignObject = Some \<lparr>fo_child = False\<rparr>,
                  p_parser = Null,
                  p_image = Ref,
                  canvas = Ref,
                  context2d = Ref,
                  p_resolution = settingsResolution,
                  p_text = None,
                  p_style = None,
                  p_autoResolution = True,
                  p_loading = False,
                  localStyleID = - 1,
                  dirty = False\<rparr>
      in set_style style (set_text text this))"

text \<open>The \<^verbatim>\<open>load\<close> and \<^verbatim>\<open>error\<close> events of the image run the handler installed, if any.\<close>

definition fire_load :: "host \<Rightarrow> htmlText \<Rightarrow> error + htmlText" where
  "fire_load h this =
     (case onload (image_obj this) of None \<Rightarrow> Inr this | Some cl \<Rightarrow> image_onload h cl this)"

definition fire_error :: "host \<Rightarrow> htmlText \<Rightarrow> error + htmlText" where
  "fire_error h this =
     (case onerror (image_obj this) of None \<Rightarrow> Inr this | Some cl \<Rightarrow> image_onload h cl this)"

section \<open>The JavaScript revision\<close>

text \<open>
  \<^verbatim>\<open>index.js\<close> differs in these places: \<^verbatim>\<open>updateText\<close> parses the text as XML to
  measure it and throws when the parsed document has no \<^verbatim>\<open>div\<close> (lines 149 to 152), the
  measured box is not rounded up, \<^verbatim>\<open>updateText\<close> scales and clears the context itself and
  calls \<^verbatim>\<open>updateTexture\<close> at once when it starts a decode, \<^verbatim>\<open>updateTexture\<close> rounds the
  quotient up, the width and height accessors read \<^verbatim>\<open>texture.orig\<close>, and \<^verbatim>\<open>destroy\<close> does not
  test the canvas.
\<close>

definition updateTexture_js :: "host \<Rightarrow> htmlText \<Rightarrow> error + htmlText" where
  "updateTexture_js h this =
     (case p_style this of None \<Rightarrow> Inl TypeError | Some style \<Rightarrow>
     (case texture this of None \<Rightarrow> Inl TypeError | Some tex \<Rightarrow>
      if canvas this = Null then Inl TypeError
      else if trim style \<and> context2d this = Null
              \<and> t_data (trimCanvas h (canvas_obj this) (effects this)) \<noteq> None
      then Inl TypeError
      else
        let resolution = p_resolution this;
            t = trimCanvas h (canvas_obj this) (effects this);
            this1 = (if trim style then
                       (case t_data t of None \<Rightarrow> this
                        | Some data \<Rightarrow>
                            this\<lparr>canvas_obj := (canvas_obj this)
                                    \<lparr>canvas_width := canvasDimension 300 (t_width t),
                                     canvas_height := canvasDimension 150 (t_height t)\<rparr>,
                                 effects := effects this @ [PutImageData data]\<rparr>)
                     else this);
            pad = (if trim style then 0 else padding style);
            cv = canvas_obj this1;
            fw = real_of_int \<lceil>divD h (real_of_int (canvas_width cv)) resolution\<rceil>;
            fh = real_of_int \<lceil>divD h (real_of_int (canvas_height cv)) resolution\<rceil>;
            tex1 = tex\<lparr>tex_trim := (tex_trim tex)
                         \<lparr>rect_width := fw, rect_height := fh, rect_x := - pad, rect_y := - pad\<rparr>,
                       tex_frame := (tex_frame tex)\<lparr>rect_width := fw, rect_height := fh\<rparr>,
                       tex_orig := (tex_orig tex)
                         \<lparr>rect_width := subD h fw (mulD h pad 2),
                          rect_height := subD h fh (mulD h pad 2)\<rparr>\<rparr>;
            sp = onTextureUpdate h tex1 (sprite this1);
            tex2 = setRealSize h (canvas_width cv) (canvas_height cv) resolution tex1
        in Inr (this1\<lparr>sprite := sp, texture := Some tex2, dirty := False\<rparr>)))"

text \<open>The text that the template string of \<^verbatim>\<open>updateText\<close> embeds.\<close>

definition templateText :: "htmlText \<Rightarrow> string" where
  "templateText this = (case p_text this of None \<Rightarrow> ''null'' | Some t \<Rightarrow> t)"

definition image_onload_js :: "host \<Rightarrow> handler \<Rightarrow> htmlText \<Rightarrow> error + htmlText" where
  "image_onload_js h cl this =
     (let this1 = this\<lparr>effects := effects this @
                    [DrawImage (src (image_obj this)) (h_width cl) (h_height cl)],
                   image_obj := (image_obj this)\<lparr>onload := None, src := NoSrc\<rparr>,
                   p_loading := False\<rparr>
      in updateTexture_js h this1)"

definition updateText_js ::
    "host \<Rightarrow> bool \<Rightarrow> real \<times> real \<Rightarrow> htmlText \<Rightarrow> error + htmlText" where
  "updateText_js h respectDirty box this =
     (case p_style this of None \<Rightarrow> Inl TypeError | Some style \<Rightarrow>
      let resolution = p_resolution this;
          this1 = (if localStyleID this \<noteq> styleID style
                   then this\<lparr>dirty := True, localStyleID := styleID style\<rparr> else this)
      in if \<not> dirty this1 \<and> respectDirty then Inr this1
         else if p_parser this1 = Null then Inl TypeError
         else if \<not> templateDiv h style (templateText this1) then Inl TypeError
         else if canvas this1 = Null then Inl TypeError
         else if context2d this1 = Null then Inl TypeError
         else if \<not> p_loading this1 \<and> p_image this1 = Null then Inl TypeError
         else
           let width = fst box;
               height = snd box;
               cw = canvasDimension 300 (canvasSize h width (padding style) resolution);
               ch = canvasDimension 150 (canvasSize h height (padding style) resolution);
               this2 = this1\<lparr>
                 effects := effects this1 @
                   [Measured box, Scale resolution resolution,
                    ClearRect 0 0 (real_of_int cw) (real_of_int ch)],
                 canvas_obj := (canvas_obj this1)\<lparr>canvas_width := cw, canvas_height := ch\<rparr>\<rparr>
           in if \<not> p_loading this2 then
                let svg = \<lparr>doc_width = 2048, doc_height = 2048, doc_style = style,
                            doc_html = templateText this2\<rparr>
                in updateTexture_js h (this2\<lparr>
                     p_loading := True,
                     image_obj := (image_obj this2)
                       \<lparr>src := DataURL svg,
                        onload := Some \<lparr>h_resolution = resolution, h_width = width,
                                         h_height = height\<rparr>\<rparr>,
                     effects := effects this2 @ [DecodeStarted svg]\<rparr>)
              else Inr this2)"

definition render_js ::
    "host \<Rightarrow> real \<Rightarrow> real \<times> real \<Rightarrow> htmlText \<Rightarrow> error + htmlText" where
  "render_js h rendererResolution box this =
     updateText_js h True box (followRenderer rendererResolution this)"

definition destroy_js :: "host \<Rightarrow> destroyOptions \<Rightarrow> htmlText \<Rightarrow> error + htmlText" where
  "destroy_js h options this =
     (let (sp, tx) = superDestroy h options (sprite this, texture this);
          this1 = this\<lparr>sprite := sp, texture := tx, context2d := Null\<rparr>
      in if canvas this1 = Null then Inl TypeError
         else if p_image this1 = Null then Inl TypeError
         else Inr (this1\<lparr>
                canvas_obj := (canvas_obj this1)\<lparr>canvas_width := 0, canvas_height := 0\<rparr>,
                canvas := Null, p_style := None, p_parser := Null,
                image_obj := (image_obj this1)\<lparr>onload := None, src := NoSrc\<rparr>,
                p_image := Null\<rparr>))"

definition get_width_js ::
    "host \<Rightarrow> real \<times> real \<Rightarrow> htmlText \<Rightarrow> error + real \<times> htmlText" where
  "get_width_js h box this =
     (case updateText_js h True box this of Inl e \<Rightarrow> Inl e
      | Inr this1 \<Rightarrow>
         (case texture this1 of None \<Rightarrow> Inl TypeError
          | Some tex \<Rightarrow>
              Inr (mulD h \<bar>scale_x (sprite this1)\<bar> (rect_width (tex_orig tex)), this1)))"

definition get_height_js ::
    "host \<Rightarrow> real \<times> real \<Rightarrow> htmlText \<Rightarrow> error + real \<times> htmlText" where
  "get_height_js h box this =
     (case updateText_js h True box this of Inl e \<Rightarrow> Inl e
      | Inr this1 \<Rightarrow>
         (case texture this1 of None \<Rightarrow> Inl TypeError
          | Some tex \<Rightarrow>
              Inr (mulD h \<bar>scale_y (sprite this1)\<bar> (rect_height (tex_orig tex)), this1)))"

definition set_width_js ::
    "host \<Rightarrow> real \<Rightarrow> real \<times> real \<Rightarrow> htmlText \<Rightarrow> error + htmlText" where
  "set_width_js h v box this =
     (case updateText_js h True box this of Inl e \<Rightarrow> Inl e
      | Inr this1 \<Rightarrow>
         (case texture this1 of None \<Rightarrow> Inl TypeError
          | Some tex \<Rightarrow>
              let s = signOr1 (scale_x (sprite this1))
              in Inr (this1\<lparr>sprite := (sprite this1)
                   \<lparr>scale_x := divD h (mulD h s v) (rect_width (tex_orig tex)),
                    p_width := v\<rparr>\<rparr>)))"

definition set_height_js ::
    "host \<Rightarrow> real \<Rightarrow> real \<times> real \<Rightarrow> htmlText \<Rightarrow> error + htmlText" where
  "set_height_js h v box this =
     (case updateText_js h True box this of Inl e \<Rightarrow> Inl e
      | Inr this1 \<Rightarrow>
         (case texture this1 of None \<Rightarrow> Inl TypeError
          | Some tex \<Rightarrow>
              let s = signOr1 (scale_y (sprite this1))
              in Inr (this1\<lparr>sprite := (sprite this1)
                   \<lparr>scale_y := divD h (mulD h s v) (rect_height (tex_orig tex)),
                    p_height := v\<rparr>\<rparr>)))"

definition new_HTMLText_js ::
    "js_text \<Rightarrow> textStyle \<Rightarrow> texture \<Rightarrow> sprite \<Rightarrow> real \<Rightarrow> htmlText" where
  "new_HTMLText_js text style tex0 sp0 settingsResolution =
     (let text = (case text of Undefined \<Rightarrow> Str [] | t \<Rightarrow> t);
          this = \<lparr>sprite = sp0,
                  texture = Some (tex0\<lparr>tex_orig := new_Rectangle, tex_trim := new_Rectangle\<rparr>),
                  canvas_obj = \<lparr>canvas_width = 3, canvas_height = 3\<rparr>,
                  image_obj = \<lparr>src = NoSrc, onload = None, onerror = None\<rparr>,
                  effects = [],
                  p_domElement = None,
                  p_svgRoot = None,
                  p_foreignObject = None,
                  p_parser = Ref,
                  p_image = Ref,
                  canvas = Ref,
                  context2d = Ref,
                  p_resolution = settingsResolution,
                  p_text = None,
                  p_style = None,
                  p_autoResolution = True,
                  p_loading = False,
                  localStyleID = - 1,
                  dirty = False\<rparr>
      in (set_style style (set_text text this))\<lparr>localStyleID := - 1\<rparr>)"

definition fire_load_js :: "host \<Rightarrow> htmlText \<Rightarrow> error + htmlText" where
  "fire_load_js h this =
     (case onload (image_obj this) of None \<Rightarrow> Inr this
      | Some cl \<Rightarrow> image_onload_js h cl this)"

definition fire_error_js :: "host \<Rightarrow> htmlText \<Rightarrow> error + htmlText" where
  "fire_error_js h this =
     (case onerror (image_obj this) of None \<Rightarrow> Inr this
      | Some cl \<Rightarrow> image_onload_js h cl this)"

section \<open>Sequences of calls and events\<close>

text \<open>
  Everything that can happen to an instance: the calls of its interface, a change of the
  shared style object, and the two events of the image.  A call that reads the layout carries
  the box the browser would measure.
\<close>

datatype revision = TS | JS

datatype op =
    UpdateText bool "real \<times> real"
  | UpdateTexture
  | Render real "real \<times> real"
  | RenderCanvas real "real \<times> real"
  | GetLocalBounds "real \<times> real"
  | CalculateBounds "real \<times> real"
  | OnStyleChange
  | Destroy destroyOptions
  | GetWidth "real \<times> real"
  | SetWidth real "real \<times> real"
  | GetHeight "real \<times> real"
  | SetHeight real "real \<times> real"
  | SetStyle textStyle
  | StyleMutated textStyle
  | SetText js_text
  | SetResolution real
  | ImageLoad
  | ImageError

fun step :: "revision \<Rightarrow> host \<Rightarrow> op \<Rightarrow> htmlText \<Rightarrow> error + htmlText" where
  "step TS h (UpdateText rd box) this = updateText h rd box this"
| "step TS h UpdateTexture this = updateTexture h this"
| "step TS h (Render r box) this = render h r box this"
| "step TS h (RenderCanvas r box) this = renderCanvas h r box this"
| "step TS h (GetLocalBounds box) this = getLocalBounds h box this"
| "step TS h (CalculateBounds box) this = calculateBounds h box this"
| "step TS h (Destroy options) this = destroy h options this"
| "step TS h (GetWidth box) this = map_sum id snd (get_width h box this)"
| "step TS h (SetWidth v box) this = set_width h v box this"
| "step TS h (GetHeight box) this = map_sum id snd (get_height h box this)"
| "step TS h (SetHeight v box) this = set_height h v box this"
| "step TS h ImageLoad this = fire_load h this"
| "step TS h ImageError this = fire_error h this"
| "step JS h (UpdateText rd box) this = updateText_js h rd box this"
| "step JS h UpdateTexture this = updateTexture_js h this"
| "step JS h (Render r box) this = render_js h r box this"
| "step JS h (RenderCanvas r box) this = render_js h r box this"
| "step JS h (GetLocalBounds box) this = updateText_js h True box this"
| "step JS h (CalculateBounds box) this = updateText_js h True box this"
| "step JS h (Destroy options) this = destroy_js h options this"
| "step JS h (GetWidth box) this = map_sum id snd (get_width_js h box this)"
| "step JS h (SetWidth v box) this = set_width_js h v box this"
| "step JS h (GetHeight box) this = map_sum id snd (get_height_js h box this)"
| "step JS h (SetHeight v box) this = set_height_js h v box this"
| "step JS h ImageLoad this = fire_load_js h this"
| "step JS h ImageError this = fire_error_js h this"
| "step rv h OnStyleChange this = Inr (onStyleChange this)"
| "step rv h (SetStyle style) this = Inr (set_style style this)"
| "step rv h (StyleMutated style) this = Inr (styleMutated style this)"
| "step rv h (SetText text) this = Inr (set_text text this)"
| "step rv h (SetResolution v) this = Inr (set_resolution v this)"

text \<open>A sequence runs until a call throws.\<close>

fun run :: "revision \<Rightarrow> host \<Rightarrow> op list \<Rightarrow> htmlText \<Rightarrow> error + htmlText" where
  "run rv h [] this = Inr this"
| "run rv h (a # ops) this =
     (case step rv h a this of Inl e \<Rightarrow> Inl e | Inr this1 \<Rightarrow> run rv h ops this1)"

text \<open>An instance none of whose fields has been set to \<^verbatim>\<open>null\<close> by \<^verbatim>\<open>destroy\<close>.\<close>

definition alive :: "htmlText \<Rightarrow> bool" where
  "alive this \<longleftrightarrow>
     p_style this \<noteq> None \<and> texture this \<noteq> None \<and> p_domElement this \<noteq> None \<and>
     p_svgRoot this \<noteq> None \<and> p_foreignObject this \<noteq> None \<and> p_image this = Ref \<and>
     canvas this = Ref \<and> context2d this = Ref"

definition alive_js :: "htmlText \<Rightarrow> bool" where
  "alive_js this \<longleftrightarrow>
     p_style this \<noteq> None \<and> texture this \<noteq> None \<and> p_parser this = Ref \<and>
     p_image this = Ref \<and> canvas this = Ref \<and> context2d this = Ref"

text \<open>Counts over the platform effects: measurements, decodes started, images drawn.\<close>

fun isMeasured :: "effect \<Rightarrow> bool" where
  "isMeasured (Measured box) = True"
| "isMeasured e = False"

fun isDecodeStarted :: "effect \<Rightarrow> bool" where
  "isDecodeStarted (DecodeStarted d) = True"
| "isDecodeStarted e = False"

fun isDrawImage :: "effect \<Rightarrow> bool" where
  "isDrawImage (DrawImage i w h) = True"
| "isDrawImage e = False"

definition measurements :: "htmlText \<Rightarrow> nat" where
  "measurements this = length (filter isMeasured (effects this))"

definition decodes :: "htmlText \<Rightarrow> nat" where
  "decodes this = length (filter isDecodeStarted (effects this))"

definition draws :: "htmlText \<Rightarrow> nat" where
  "draws this = length (filter isDrawImage (effects this))"

fun isSetResolution :: "op \<Rightarrow> bool" where
  "isSetResolution (SetResolution v) = True"
| "isSetResolution a = False"

text \<open>The accessors refresh with \<open>updateText\<close> and then touch the sprite only.\<close>

definition same_but_sprite :: "htmlText \<Rightarrow> htmlText \<Rightarrow> bool" where
  "same_but_sprite a b \<longleftrightarrow> (\<exists>sp. b = a\<lparr>sprite := sp\<rparr>)"

text \<open>
  What the host engine does in \<^verbatim>\<open>setRealSize\<close> for a texture made from a canvas without a
  frame of its own: the announced update sets the frame of the texture to the size of the
  base texture, the real size divided by the resolution, and leaves \<open>trim\<close> and \<open>orig\<close>.
\<close>

definition frameFollowsBase :: "host \<Rightarrow> bool" where
  "frameFollowsBase h \<longleftrightarrow>
     (\<forall>w ht r tex. r \<noteq> 0 \<longrightarrow>
        tex_trim (setRealSize h w ht r tex) = tex_trim tex \<and>
        tex_orig (setRealSize h w ht r tex) = tex_orig tex \<and>
        rect_width (tex_frame (setRealSize h w ht r tex)) = divD h (real_of_int w) r \<and>
        rect_height (tex_frame (setRealSize h w ht r tex)) = divD h (real_of_int ht) r)"

section \<open>Concrete instances\<close>

definition style0 :: textStyle where
  "style0 = \<lparr>styleID = 0, padding = 4, trim = False\<rparr>"

definition style_trim :: textStyle where
  "style_trim = \<lparr>styleID = 0, padding = 4, trim = True\<rparr>"

definition style_neg :: textStyle where
  "style_neg = \<lparr>styleID = 0, padding = - 4, trim = False\<rparr>"

definition tex0 :: texture where
  "tex0 = \<lparr>tex_orig = new_Rectangle, tex_trim = new_Rectangle,
           tex_frame = \<lparr>rect_x = 0, rect_y = 0, rect_width = 3, rect_height = 3\<rparr>,
           tex_base = \<lparr>realWidth = 3, realHeight = 3, bt_resolution = 1\<rparr>\<rparr>"

definition sprite0 :: sprite where
  "sprite0 = \<lparr>scale_x = 1, scale_y = 1, p_width = 0, p_height = 0\<rparr>"

text \<open>
  A host for the examples.  Its rounding is the identity, as the rounding of doubles is on
  every value that the examples compute; it finds the \<^verbatim>\<open>div\<close> for a text without markup
  characters; its \<^verbatim>\<open>trimCanvas\<close> finds a bitmap of 5 by 2 pixels once an image has been
  drawn, and nothing on a blank canvas; its \<^verbatim>\<open>setRealSize\<close> resets the frame as the host
  engine does.
\<close>

definition host0 :: host where
  "host0 = \<lparr>roundDouble = (\<lambda>x. x),
            templateDiv = (\<lambda>style text. CHR ''<'' \<notin> set text \<and> CHR ''&'' \<notin> set text),
            trimCanvas = (\<lambda>cv es. if list_ex isDrawImage es
                 then \<lparr>t_width = 5, t_height = 2, t_data = Some [0]\<rparr>
                 else \<lparr>t_width = canvas_width cv, t_height = canvas_height cv, t_data = None\<rparr>),
            onTextureUpdate = (\<lambda>tex sp. sp),
            setRealSize = (\<lambda>w ht r tex.
                 tex\<lparr>tex_frame := (tex_frame tex)
                        \<lparr>rect_width := real_of_int w / r, rect_height := real_of_int ht / r\<rparr>,
                     tex_base := \<lparr>realWidth = w, realHeight = ht, bt_resolution = r\<rparr>\<rparr>),
            superDestroy = (\<lambda>options (sp, tx). (sp, None))\<rparr>"

definition example :: htmlText where
  "example = new_HTMLText (Str ''Hi'') style0 tex0 sprite0 2"

definition example_js :: htmlText where
  "example_js = new_HTMLText_js (Str ''Hi'') style0 tex0 sprite0 2"

definition example_trim :: htmlText where
  "example_trim = new_HTMLText (Str ''Hi'') style_trim tex0 sprite0 2"

definition example_trim_js :: htmlText where
  "example_trim_js = new_HTMLText_js (Str ''Hi'') style_trim tex0 sprite0 2"

definition example_neg :: htmlText where
  "example_neg = new_HTMLText (Str ''Hi'') style_neg tex0 sprite0 2"

text \<open>The two plain instances after a first refresh: a decode is pending.\<close>

definition example_pending :: htmlText where
  "example_pending =
     (case updateText host0 True (21 / 2, 20) example of Inr s \<Rightarrow> s | Inl e \<Rightarrow> example)"

definition example_pending_js :: htmlText where
  "example_pending_js =
     (case updateText_js host0 True (21 / 2, 20) example_js of Inr s \<Rightarrow> s
      | Inl e \<Rightarrow> example_js)"

text \<open>
  A change of the text while a decode is pending: a refresh, the change, a render tick, and
  then the \<^verbatim>\<open>load\<close> event of the decode.
\<close>

definition pending_retry :: "op list" where
  "pending_retry = [UpdateText True (21 / 2, 20), SetText (Str ''Ho''), Render 2 (30, 20)]"

definition change_while_pending :: "op list" where
  "change_while_pending = pending_retry @ [ImageLoad]"

section \<open>Sanitising and the text setter\<close>

lemma of_char_canonicalize:
  "(of_char (canonicalize c) :: nat) =
     (if 97 \<le> (of_char c :: nat) \<and> (of_char c :: nat) \<le> 122 then of_char c - 32
      else of_char c)"
proof (cases "97 \<le> (of_char c :: nat) \<and> (of_char c :: nat) \<le> 122")
  case True
  then have "(of_char c :: nat) - 32 < 256" by arith
  then have "((of_char c :: nat) - 32) mod 256 = of_char c - 32" by (rule mod_less)
  with True show ?thesis by (simp add: canonicalize_def Let_def)
next
  case False
  then show ?thesis by (auto simp add: canonicalize_def Let_def)
qed

lemma canon_eq_nat:
  "canonicalize a = canonicalize b \<longleftrightarrow>
     (of_char (canonicalize a) :: nat) = of_char (canonicalize b)"
  by simp

lemma char_eq_nat: "c = d \<longleftrightarrow> (of_char c :: nat) = of_char d"
  by simp

text \<open>Which characters each character of the three patterns matches.\<close>

lemma canon_lt: "canonicalize CHR ''<'' = canonicalize c \<longleftrightarrow> c = CHR ''<''"
  unfolding canon_eq_nat of_char_canonicalize char_eq_nat[of c] by (simp; arith)

lemma canon_gt: "canonicalize CHR ''>'' = canonicalize c \<longleftrightarrow> c = CHR ''>''"
  unfolding canon_eq_nat of_char_canonicalize char_eq_nat[of c] by (simp; arith)

lemma canon_amp: "canonicalize CHR ''&'' = canonicalize c \<longleftrightarrow> c = CHR ''&''"
  unfolding canon_eq_nat of_char_canonicalize char_eq_nat[of c] by (simp; arith)

lemma canon_semi: "canonicalize CHR '';'' = canonicalize c \<longleftrightarrow> c = CHR '';''"
  unfolding canon_eq_nat of_char_canonicalize char_eq_nat[of c] by (simp; arith)

lemma canon_b:
  "canonicalize CHR ''b'' = canonicalize c \<longleftrightarrow> c = CHR ''b'' \<or> c = CHR ''B''"
  unfolding canon_eq_nat of_char_canonicalize char_eq_nat[of c] by (simp; arith)

lemma canon_r:
  "canonicalize CHR ''r'' = canonicalize c \<longleftrightarrow> c = CHR ''r'' \<or> c = CHR ''R''"
  unfolding canon_eq_nat of_char_canonicalize char_eq_nat[of c] by (simp; arith)

lemma canon_h:
  "canonicalize CHR ''h'' = canonicalize c \<longleftrightarrow> c = CHR ''h'' \<or> c = CHR ''H''"
  unfolding canon_eq_nat of_char_canonicalize char_eq_nat[of c] by (simp; arith)

lemma canon_n:
  "canonicalize CHR ''n'' = canonicalize c \<longleftrightarrow> c = CHR ''n'' \<or> c = CHR ''N''"
  unfolding canon_eq_nat of_char_canonicalize char_eq_nat[of c] by (simp; arith)

lemma canon_s:
  "canonicalize CHR ''s'' = canonicalize c \<longleftrightarrow> c = CHR ''s'' \<or> c = CHR ''S''"
  unfolding canon_eq_nat of_char_canonicalize char_eq_nat[of c] by (simp; arith)

lemma canon_p:
  "canonicalize CHR ''p'' = canonicalize c \<longleftrightarrow> c = CHR ''p'' \<or> c = CHR ''P''"
  unfolding canon_eq_nat of_char_canonicalize char_eq_nat[of c] by (simp; arith)

lemmas canon_pattern_chars =
  canon_lt canon_gt canon_amp canon_semi canon_b canon_r canon_h canon_n canon_s canon_p

lemma match_ci_Cons:
  "match_ci (p # ps) s \<longleftrightarrow>
     (\<exists>c cs. s = c # cs \<and> canonicalize p = canonicalize c \<and> match_ci ps cs)"
  by (cases s) simp_all

lemma match_br_iff:
  "match_ci ''<br>'' s \<longleftrightarrow>
     (\<exists>a b rest. s = CHR ''<'' # a # b # CHR ''>'' # rest \<and>
        (a = CHR ''b'' \<or> a = CHR ''B'') \<and> (b = CHR ''r'' \<or> b = CHR ''R''))"
  by (auto simp add: match_ci_Cons canon_pattern_chars)

lemma match_hr_iff:
  "match_ci ''<hr>'' s \<longleftrightarrow>
     (\<exists>a b rest. s = CHR ''<'' # a # b # CHR ''>'' # rest \<and>
        (a = CHR ''h'' \<or> a = CHR ''H'') \<and> (b = CHR ''r'' \<or> b = CHR ''R''))"
  by (auto simp add: match_ci_Cons canon_pattern_chars)

lemma match_nbsp_iff:
  "match_ci ''&nbsp;'' s \<longleftrightarrow>
     (\<exists>a b c d rest. s = CHR ''&'' # a # b # c # d # CHR '';'' # rest \<and>
        (a = CHR ''n'' \<or> a = CHR ''N'') \<and> (b = CHR ''b'' \<or> b = CHR ''B'') \<and>
        (c = CHR ''s'' \<or> c = CHR ''S'') \<and> (d = CHR ''p'' \<or> d = CHR ''P''))"
  by (auto simp add: match_ci_Cons canon_pattern_chars)

text \<open>
  A replacement whose first character differs from every character of a pattern \<open>q\<close>
  cannot create a match of \<open>q\<close>.
\<close>

lemma match_ci_through_replace:
  assumes "\<forall>x \<in> set q. canonicalize x \<noteq> canonicalize r"
  shows "match_ci q (replace_gi pat (r # rs) s) \<Longrightarrow> match_ci q s"
  using assms
proof (induction q arbitrary: s)
  case Nil
  then show ?case by simp
next
  case (Cons x q)
  show ?case
  proof (cases s)
    case Nil
    with Cons.prems show ?thesis by simp
  next
    case (Cons d ds)
    show ?thesis
    proof (cases "match_ci pat (d # ds)")
      case True
      with Cons.prems Cons show ?thesis by simp
    next
      case False
      with Cons.prems Cons Cons.IH[of ds] show ?thesis by simp
    qed
  qed
qed

lemma sanitise_br:
  assumes "match_ci ''<br>'' (c # cs)"
  shows "sanitiseText (c # cs) = ''<br/>'' @ sanitiseText (drop 3 cs)"
  using assms unfolding sanitiseText_def match_br_iff
  by (auto simp add: canon_pattern_chars eval_nat_numeral)

lemma sanitise_hr:
  assumes "match_ci ''<hr>'' (c # cs)"
  shows "sanitiseText (c # cs) = ''<hr/>'' @ sanitiseText (drop 3 cs)"
  using assms unfolding sanitiseText_def match_hr_iff
  by (auto simp add: canon_pattern_chars eval_nat_numeral)

lemma sanitise_nbsp:
  assumes "match_ci ''&nbsp;'' (c # cs)"
  shows "sanitiseText (c # cs) = ''&#160;'' @ sanitiseText (drop 5 cs)"
  using assms unfolding sanitiseText_def match_nbsp_iff
  by (auto simp add: canon_pattern_chars eval_nat_numeral)

lemma sanitise_other:
  assumes "\<not> match_ci ''<br>'' (c # cs)" "\<not> match_ci ''<hr>'' (c # cs)"
    "\<not> match_ci ''&nbsp;'' (c # cs)"
  shows "sanitiseText (c # cs) = c # sanitiseText cs"
proof -
  let ?b = "replace_gi ''<br>'' ''<br/>'' cs"
  let ?h = "replace_gi ''<hr>'' ''<hr/>'' ?b"
  have b: "replace_gi ''<br>'' ''<br/>'' (c # cs) = c # ?b"
    using assms(1) by (simp del: match_ci.simps)
  have "\<not> match_ci ''<hr>'' (c # ?b)"
  proof
    assume m: "match_ci ''<hr>'' (c # ?b)"
    then have "match_ci ''hr>'' ?b" by simp
    then have "match_ci ''hr>'' cs"
      by (rule match_ci_through_replace[rotated]) (simp add: canon_pattern_chars)
    with m assms(2) show False by simp
  qed
  then have h: "replace_gi ''<hr>'' ''<hr/>'' (c # ?b) = c # ?h"
    by (simp del: match_ci.simps)
  have "\<not> match_ci ''&nbsp;'' (c # ?h)"
  proof
    assume m: "match_ci ''&nbsp;'' (c # ?h)"
    then have "match_ci ''nbsp;'' ?h" by simp
    then have "match_ci ''nbsp;'' ?b"
      by (rule match_ci_through_replace[rotated]) (simp add: canon_pattern_chars)
    then have "match_ci ''nbsp;'' cs"
      by (rule match_ci_through_replace[rotated]) (simp add: canon_pattern_chars)
    with m assms(3) show False by simp
  qed
  then have "replace_gi ''&nbsp;'' ''&#160;'' (c # ?h) = c # replace_gi ''&nbsp;'' ''&#160;'' ?h"
    by (simp del: match_ci.simps)
  with b h show ?thesis by (simp add: sanitiseText_def del: match_ci.simps replace_gi.simps)
qed

lemma sanitiseText_one_pass: "sanitiseText t = sanitise_spec t"
proof (induction t rule: sanitise_spec.induct)
  case 1
  show ?case by (simp add: sanitiseText_def)
next
  case (2 c cs)
  show ?case
  proof (cases "match_ci ''<br>'' (c # cs)")
    case True
    with 2(1) sanitise_br[OF True] show ?thesis by (simp del: match_ci.simps)
  next
    case nbr: False
    show ?thesis
    proof (cases "match_ci ''<hr>'' (c # cs)")
      case True
      with nbr 2(2) sanitise_hr[OF True] show ?thesis by (simp del: match_ci.simps)
    next
      case nhr: False
      show ?thesis
      proof (cases "match_ci ''&nbsp;'' (c # cs)")
        case True
        with nbr nhr 2(3) sanitise_nbsp[OF True] show ?thesis by (simp del: match_ci.simps)
      next
        case False
        with nbr nhr 2(4) sanitise_other[OF nbr nhr False] show ?thesis
          by (simp del: match_ci.simps)
      qed
    qed
  qed
qed

lemma sanitise_space: "sanitiseText '' '' = '' ''"
  by (simp add: sanitiseText_def canon_pattern_chars)

lemma sanitise_Hi: "sanitiseText ''Hi'' = ''Hi''"
  by (simp add: sanitiseText_def canon_pattern_chars)

lemma sanitise_Ho: "sanitiseText ''Ho'' = ''Ho''"
  by (simp add: sanitiseText_def canon_pattern_chars)

lemma p_text_set_text: "p_text (set_text text this) = Some (sanitiseText (coerceText text))"
  by (simp add: set_text_def Let_def)

text \<open>
  Claim C3.  The text setter stores the sanitised string, and sanitising is the one-pass
  replacement of the specification: every occurrence of \<^verbatim>\<open><br>\<close>, \<^verbatim>\<open><hr>\<close> and
  \<^verbatim>\<open>&nbsp;\<close>, in any letter case, becomes \<^verbatim>\<open><br/>\<close>, \<^verbatim>\<open><hr/>\<close> and \<^verbatim>\<open>&#160;\<close>, and every
  other character is kept; the two examples of the specification come out as written.
\<close>

theorem C3_sanitise_replaces_every_occurrence:
  "sanitiseText t = sanitise_spec t \<and>
   p_text (set_text (Str t) this) = Some (sanitise_spec (if t = [] then '' '' else t)) \<and>
   sanitiseText ''a<br>b'' = ''a<br/>b'' \<and>
   sanitiseText ''x&nbsp;y'' = ''x&#160;y''"
proof -
  have "p_text (set_text (Str t) this) = Some (sanitise_spec (if t = [] then '' '' else t))"
    unfolding p_text_set_text sanitiseText_one_pass by (simp add: coerceText_def)
  moreover have "sanitiseText ''a<br>b'' = ''a<br/>b''"
    by (simp add: sanitiseText_def canon_pattern_chars)
  moreover have "sanitiseText ''x&nbsp;y'' = ''x&#160;y''"
    by (simp add: sanitiseText_def canon_pattern_chars)
  ultimately show ?thesis using sanitiseText_one_pass[of t] by (simp only: simp_thms)
qed

text \<open>
  Claim C6.  Assigning the empty string, \<^verbatim>\<open>null\<close> or \<^verbatim>\<open>undefined\<close> to the text property
  leaves exactly one space as the stored text, whatever was stored before.
\<close>

theorem C6_empty_text_is_one_space:
  "p_text (set_text (Str []) this) = Some '' '' \<and>
   p_text (set_text JsNull this) = Some '' '' \<and>
   p_text (set_text Undefined this) = Some '' ''"
  by (simp add: p_text_set_text coerceText_def sanitise_space)

section \<open>Facts about the concrete instances\<close>

lemma example_fields:
  "p_text example = Some ''Hi''" "p_resolution example = 2" "dirty example"
  "p_autoResolution example" "\<not> p_loading example" "alive example"
  "p_style example = Some style0" "onerror (image_obj example) = None"
  by (simp_all add: example_def new_HTMLText_def set_style_def set_text_def coerceText_def
      sanitise_Hi Let_def alive_def)

lemma example_js_fields:
  "p_text example_js = Some ''Hi''" "p_resolution example_js = 2" "dirty example_js"
  "p_autoResolution example_js" "\<not> p_loading example_js" "alive_js example_js"
  "p_style example_js = Some style0" "onerror (image_obj example_js) = None"
  by (simp_all add: example_js_def new_HTMLText_js_def set_style_def set_text_def coerceText_def
      sanitise_Hi Let_def alive_js_def)

section \<open>The text and resolution setters\<close>

text \<open>
  Claim C5.  The text setter compares the sanitised new value with the stored one, the
  resolution setter the new value with the stored one.  When they are equal, the dirty flag
  and the stored text and resolution stay as they were (the text setter changes nothing at
  all); when they differ, the new value is stored and the instance is marked dirty.
\<close>

theorem C5_setters_mark_dirty_only_on_change:
  "(p_text this = Some (sanitiseText (coerceText text)) \<longrightarrow> set_text text this = this) \<and>
   (p_text this \<noteq> Some (sanitiseText (coerceText text)) \<longrightarrow>
      set_text text this =
        this\<lparr>p_text := Some (sanitiseText (coerceText text)), dirty := True\<rparr>) \<and>
   (p_resolution this = v \<longrightarrow>
      dirty (set_resolution v this) = dirty this \<and>
      p_resolution (set_resolution v this) = p_resolution this \<and>
      p_text (set_resolution v this) = p_text this) \<and>
   (p_resolution this \<noteq> v \<longrightarrow>
      set_resolution v this =
        this\<lparr>p_autoResolution := False, p_resolution := v, dirty := True\<rparr>)"
  by (simp add: set_text_def set_resolution_def Let_def)

theorem C5_setters_witness:
  "p_text example = Some (sanitiseText (coerceText (Str ''Hi''))) \<and>
   set_text (Str ''Hi'') example = example \<and>
   p_text example \<noteq> Some (sanitiseText (coerceText (Str ''Ho''))) \<and>
   set_text (Str ''Ho'') example = example\<lparr>p_text := Some ''Ho'', dirty := True\<rparr> \<and>
   p_resolution example = 2 \<and>
   dirty (set_resolution 2 example) = dirty example \<and>
   p_resolution (set_resolution 2 example) = 2 \<and>
   p_resolution example \<noteq> 3 \<and>
   set_resolution 3 example =
     example\<lparr>p_autoResolution := False, p_resolution := 3, dirty := True\<rparr>"
  using C5_setters_mark_dirty_only_on_change[of example "Str ''Hi''" 2]
        C5_setters_mark_dirty_only_on_change[of example "Str ''Ho''" 3]
  by (simp add: example_fields coerceText_def sanitise_Hi sanitise_Ho)

section \<open>Invariants of calls and events\<close>

subsection \<open>What each call leaves alone\<close>

lemma updateText_keeps:
  assumes "updateText h rd box this = Inr this'"
  shows "p_resolution this' = p_resolution this \<and> p_autoResolution this' = p_autoResolution this
    \<and> onerror (image_obj this') = onerror (image_obj this) \<and> draws this' = draws this
    \<and> (dirty this \<longrightarrow> dirty this')
    \<and> (p_loading this \<longrightarrow>
          p_loading this' \<and> image_obj this' = image_obj this \<and> decodes this' = decodes this)"
  using assms unfolding updateText_def
  by (auto simp: Let_def decodes_def draws_def split: option.splits if_splits)

lemma updateTexture_keeps:
  assumes "updateTexture h this = Inr this'"
  shows "p_resolution this' = p_resolution this \<and> p_autoResolution this' = p_autoResolution this
    \<and> p_loading this' = p_loading this \<and> image_obj this' = image_obj this
    \<and> draws this' = draws this \<and> decodes this' = decodes this
    \<and> measurements this' = measurements this \<and> \<not> dirty this'"
  using assms unfolding updateTexture_def
  by (auto simp: Let_def decodes_def draws_def measurements_def split: option.splits if_splits)

lemma updateTexture_js_keeps:
  assumes "updateTexture_js h this = Inr this'"
  shows "p_resolution this' = p_resolution this \<and> p_autoResolution this' = p_autoResolution this
    \<and> p_loading this' = p_loading this \<and> image_obj this' = image_obj this
    \<and> draws this' = draws this \<and> decodes this' = decodes this
    \<and> measurements this' = measurements this \<and> \<not> dirty this'"
  using assms unfolding updateTexture_js_def
  by (auto simp: Let_def decodes_def draws_def measurements_def split: option.splits if_splits)

lemma image_onload_keeps:
  assumes "image_onload h cl this = Inr this'"
  shows "p_resolution this' = p_resolution this \<and> p_autoResolution this' = p_autoResolution this
    \<and> onerror (image_obj this') = onerror (image_obj this)"
  using assms unfolding image_onload_def
  by (auto simp: Let_def dest!: updateTexture_keeps)

lemma image_onload_js_keeps:
  assumes "image_onload_js h cl this = Inr this'"
  shows "p_resolution this' = p_resolution this \<and> p_autoResolution this' = p_autoResolution this
    \<and> onerror (image_obj this') = onerror (image_obj this)"
  using assms unfolding image_onload_js_def
  by (auto simp: Let_def dest!: updateTexture_js_keeps)

lemma updateText_js_keeps:
  assumes "updateText_js h rd box this = Inr this'"
  shows "p_resolution this' = p_resolution this \<and> p_autoResolution this' = p_autoResolution this
    \<and> onerror (image_obj this') = onerror (image_obj this) \<and> draws this' = draws this
    \<and> (p_loading this \<longrightarrow>
          p_loading this' \<and> image_obj this' = image_obj this \<and> decodes this' = decodes this
          \<and> (dirty this \<longrightarrow> dirty this'))"
  using assms unfolding updateText_js_def
  by (auto simp: Let_def decodes_def draws_def split: option.splits if_splits
      dest!: updateTexture_js_keeps)

lemma destroy_keeps:
  assumes "destroy h options this = Inr this'"
  shows "p_resolution this' = p_resolution this \<and> p_autoResolution this' = p_autoResolution this
    \<and> p_loading this' = p_loading this \<and> dirty this' = dirty this
    \<and> onerror (image_obj this') = onerror (image_obj this)
    \<and> draws this' = draws this \<and> decodes this' = decodes this"
  using assms unfolding destroy_def
  by (auto simp: Let_def decodes_def draws_def split: prod.splits if_splits)

lemma destroy_js_keeps:
  assumes "destroy_js h options this = Inr this'"
  shows "p_resolution this' = p_resolution this \<and> p_autoResolution this' = p_autoResolution this
    \<and> p_loading this' = p_loading this \<and> dirty this' = dirty this
    \<and> onerror (image_obj this') = onerror (image_obj this)
    \<and> draws this' = draws this \<and> decodes this' = decodes this"
  using assms unfolding destroy_js_def
  by (auto simp: Let_def decodes_def draws_def split: prod.splits if_splits)

lemma followRenderer_keeps:
  "p_autoResolution (followRenderer r this) = p_autoResolution this
   \<and> (\<not> p_autoResolution this \<longrightarrow> p_resolution (followRenderer r this) = p_resolution this)
   \<and> p_loading (followRenderer r this) = p_loading this
   \<and> image_obj (followRenderer r this) = image_obj this
   \<and> draws (followRenderer r this) = draws this
   \<and> decodes (followRenderer r this) = decodes this
   \<and> (dirty this \<longrightarrow> dirty (followRenderer r this))"
  by (simp add: followRenderer_def decodes_def draws_def)

lemma accessors_refresh:
  "map_sum id snd (get_width h box this) = Inr this' \<Longrightarrow> updateText h True box this = Inr this'"
  "map_sum id snd (get_height h box this) = Inr this' \<Longrightarrow> updateText h True box this = Inr this'"
  "set_width h v box this = Inr this' \<Longrightarrow>
     \<exists>this1. updateText h True box this = Inr this1 \<and> same_but_sprite this1 this'"
  "set_height h v box this = Inr this' \<Longrightarrow>
     \<exists>this1. updateText h True box this = Inr this1 \<and> same_but_sprite this1 this'"
  by (auto simp: get_width_def get_height_def set_width_def set_height_def Let_def
      same_but_sprite_def split: sum.splits if_splits)

lemma accessors_refresh_js:
  "map_sum id snd (get_width_js h box this) = Inr this' \<Longrightarrow>
     updateText_js h True box this = Inr this'"
  "map_sum id snd (get_height_js h box this) = Inr this' \<Longrightarrow>
     updateText_js h True box this = Inr this'"
  "set_width_js h v box this = Inr this' \<Longrightarrow>
     \<exists>this1. updateText_js h True box this = Inr this1 \<and> same_but_sprite this1 this'"
  "set_height_js h v box this = Inr this' \<Longrightarrow>
     \<exists>this1. updateText_js h True box this = Inr this1 \<and> same_but_sprite this1 this'"
  by (auto simp: get_width_js_def get_height_js_def set_width_js_def set_height_js_def Let_def
      same_but_sprite_def split: sum.splits option.splits)

lemma same_but_sprite_fields:
  assumes "same_but_sprite a b"
  shows "p_resolution b = p_resolution a \<and> p_autoResolution b = p_autoResolution a
    \<and> image_obj b = image_obj a \<and> draws b = draws a \<and> decodes b = decodes a
    \<and> dirty b = dirty a \<and> p_loading b = p_loading a"
  using assms by (auto simp: same_but_sprite_def draws_def decodes_def)

lemma set_text_keeps:
  "p_resolution (set_text t this) = p_resolution this"
  "p_autoResolution (set_text t this) = p_autoResolution this"
  "p_loading (set_text t this) = p_loading this"
  "image_obj (set_text t this) = image_obj this"
  "draws (set_text t this) = draws this" "decodes (set_text t this) = decodes this"
  "dirty this \<Longrightarrow> dirty (set_text t this)"
  by (simp_all add: set_text_def Let_def draws_def decodes_def)

lemma set_style_keeps:
  "p_resolution (set_style st this) = p_resolution this"
  "p_autoResolution (set_style st this) = p_autoResolution this"
  "p_loading (set_style st this) = p_loading this"
  "image_obj (set_style st this) = image_obj this"
  "draws (set_style st this) = draws this" "decodes (set_style st this) = decodes this"
  "dirty (set_style st this)"
  by (simp_all add: set_style_def draws_def decodes_def)

lemma styleMutated_keeps:
  "p_resolution (styleMutated st this) = p_resolution this"
  "p_autoResolution (styleMutated st this) = p_autoResolution this"
  "p_loading (styleMutated st this) = p_loading this"
  "image_obj (styleMutated st this) = image_obj this"
  "draws (styleMutated st this) = draws this" "decodes (styleMutated st this) = decodes this"
  "dirty (styleMutated st this) = dirty this"
  by (simp_all add: styleMutated_def draws_def decodes_def split: option.splits)

lemma onStyleChange_keeps:
  "p_resolution (onStyleChange this) = p_resolution this"
  "p_autoResolution (onStyleChange this) = p_autoResolution this"
  "p_loading (onStyleChange this) = p_loading this"
  "image_obj (onStyleChange this) = image_obj this"
  "draws (onStyleChange this) = draws this" "decodes (onStyleChange this) = decodes this"
  "dirty (onStyleChange this)"
  by (simp_all add: onStyleChange_def draws_def decodes_def)

lemma set_resolution_keeps:
  "p_loading (set_resolution v this) = p_loading this"
  "image_obj (set_resolution v this) = image_obj this"
  "draws (set_resolution v this) = draws this" "decodes (set_resolution v this) = decodes this"
  "dirty this \<Longrightarrow> dirty (set_resolution v this)"
  "p_resolution (set_resolution v this) = v" "\<not> p_autoResolution (set_resolution v this)"
  by (simp_all add: set_resolution_def Let_def draws_def decodes_def)

lemmas setters_keep = set_text_keeps set_style_keeps styleMutated_keeps onStyleChange_keeps
  set_resolution_keeps

subsection \<open>Single steps\<close>

lemma step_keeps_manual_resolution:
  assumes "step rv h a this = Inr this'" and "\<not> isSetResolution a"
    and "\<not> p_autoResolution this"
  shows "p_resolution this' = p_resolution this \<and> \<not> p_autoResolution this'"
proof (cases rv)
  case TS
  with assms show ?thesis
    using followRenderer_keeps[of _ this]
    by (cases a)
      (auto simp: render_def renderCanvas_def getLocalBounds_def calculateBounds_def
        fire_load_def fire_error_def setters_keep
        split: option.splits
        dest!: updateText_keeps updateTexture_keeps destroy_keeps image_onload_keeps
          accessors_refresh same_but_sprite_fields)
next
  case JS
  with assms show ?thesis
    using followRenderer_keeps[of _ this]
    by (cases a)
      (auto simp: render_js_def
        fire_load_js_def fire_error_js_def setters_keep
        split: option.splits
        dest!: updateText_js_keeps updateTexture_js_keeps destroy_js_keeps image_onload_js_keeps
          accessors_refresh_js same_but_sprite_fields)
qed

lemma step_keeps_onerror:
  assumes "step rv h a this = Inr this'" and "onerror (image_obj this) = None"
  shows "onerror (image_obj this') = None"
proof (cases rv)
  case TS
  with assms show ?thesis
    using followRenderer_keeps[of _ this]
    by (cases a)
      (auto simp: render_def renderCanvas_def getLocalBounds_def calculateBounds_def
        fire_load_def fire_error_def setters_keep
        split: option.splits
        dest!: updateText_keeps updateTexture_keeps destroy_keeps image_onload_keeps
          accessors_refresh same_but_sprite_fields)
next
  case JS
  with assms show ?thesis
    using followRenderer_keeps[of _ this]
    by (cases a)
      (auto simp: render_js_def
        fire_load_js_def fire_error_js_def setters_keep
        split: option.splits
        dest!: updateText_js_keeps updateTexture_js_keeps destroy_js_keeps image_onload_js_keeps
          accessors_refresh_js same_but_sprite_fields)
qed

lemma step_keeps_loading:
  assumes "step rv h a this = Inr this'" and "a \<noteq> ImageLoad"
    and "p_loading this" and "onerror (image_obj this) = None"
  shows "p_loading this' \<and> decodes this' = decodes this \<and> draws this' = draws this"
proof (cases rv)
  case TS
  with assms show ?thesis
    using followRenderer_keeps[of _ this]
    by (cases a)
      (auto simp: render_def renderCanvas_def getLocalBounds_def calculateBounds_def
        fire_error_def setters_keep
        dest!: updateText_keeps updateTexture_keeps destroy_keeps
          accessors_refresh same_but_sprite_fields)
next
  case JS
  with assms show ?thesis
    using followRenderer_keeps[of _ this]
    by (cases a)
      (auto simp: render_js_def fire_error_js_def setters_keep
        dest!: updateText_js_keeps updateTexture_js_keeps destroy_js_keeps
          accessors_refresh_js same_but_sprite_fields)
qed

lemma step_keeps_dirty:
  assumes "step rv h a this = Inr this'" and "a \<noteq> ImageLoad" and "a \<noteq> UpdateTexture"
    and "p_loading this" and "onerror (image_obj this) = None" and "dirty this"
  shows "dirty this'"
proof (cases rv)
  case TS
  with assms show ?thesis
    using followRenderer_keeps[of _ this]
    by (cases a)
      (auto simp: render_def renderCanvas_def getLocalBounds_def calculateBounds_def
        fire_error_def setters_keep
        dest!: updateText_keeps destroy_keeps
          accessors_refresh same_but_sprite_fields)
next
  case JS
  with assms show ?thesis
    using followRenderer_keeps[of _ this]
    by (cases a)
      (auto simp: render_js_def fire_error_js_def setters_keep
        dest!: updateText_js_keeps destroy_js_keeps
          accessors_refresh_js same_but_sprite_fields)
qed

text \<open>
  A decode is started only when none is pending, and only the \<^verbatim>\<open>load\<close> handler clears
  the loading flag: the decodes started, plus one when idle, grow by at most one per
  \<^verbatim>\<open>load\<close> event.
\<close>

lemma updateText_slot:
  assumes "updateText h rd box this = Inr this'"
  shows "decodes this' + (if p_loading this' then 0 else 1)
       = decodes this + (if p_loading this then 0 else 1)"
  using assms unfolding updateText_def
  by (auto simp: Let_def decodes_def split: option.splits if_splits)

lemma updateText_js_slot:
  assumes "updateText_js h rd box this = Inr this'"
  shows "decodes this' + (if p_loading this' then 0 else 1)
       = decodes this + (if p_loading this then 0 else 1)"
  using assms unfolding updateText_js_def
  by (auto simp: Let_def decodes_def split: option.splits if_splits
      dest!: updateTexture_js_keeps)

lemma image_onload_slot:
  assumes "image_onload h cl this = Inr this'"
  shows "decodes this' = decodes this \<and> \<not> p_loading this'"
  using assms unfolding image_onload_def
  by (auto simp: Let_def decodes_def dest!: updateTexture_keeps)

lemma image_onload_js_slot:
  assumes "image_onload_js h cl this = Inr this'"
  shows "decodes this' = decodes this \<and> \<not> p_loading this'"
  using assms unfolding image_onload_js_def
  by (auto simp: Let_def decodes_def dest!: updateTexture_js_keeps)

lemma step_one_decode_per_load:
  assumes "step rv h a this = Inr this'" and "onerror (image_obj this) = None"
  shows "decodes this' + (if p_loading this' then 0 else 1)
       \<le> decodes this + (if p_loading this then 0 else 1) + (if a = ImageLoad then 1 else 0)"
proof (cases rv)
  case TS
  with assms show ?thesis
    using followRenderer_keeps[of _ this]
    by (cases a)
      (auto simp: render_def renderCanvas_def getLocalBounds_def calculateBounds_def
        fire_load_def fire_error_def setters_keep
        split: option.splits
        dest!: updateText_slot updateTexture_keeps destroy_keeps image_onload_slot
          accessors_refresh same_but_sprite_fields)
next
  case JS
  with assms show ?thesis
    using followRenderer_keeps[of _ this]
    by (cases a)
      (auto simp: render_js_def fire_load_js_def fire_error_js_def setters_keep
        split: option.splits
        dest!: updateText_js_slot updateTexture_js_keeps destroy_js_keeps image_onload_js_slot
          accessors_refresh_js same_but_sprite_fields)
qed

section \<open>Sequences of calls and events: what is preserved\<close>

lemma run_keeps_manual_resolution:
  assumes "run rv h ops this = Inr this'" and "\<forall>a \<in> set ops. \<not> isSetResolution a"
    and "\<not> p_autoResolution this"
  shows "p_resolution this' = p_resolution this \<and> \<not> p_autoResolution this'"
  using assms
proof (induction ops arbitrary: this)
  case Nil
  then show ?case by simp
next
  case (Cons a ops)
  from Cons.prems(1) obtain this1 where s: "step rv h a this = Inr this1"
    and r: "run rv h ops this1 = Inr this'"
    by (auto split: sum.splits)
  from step_keeps_manual_resolution[OF s] Cons.prems
  have "p_resolution this1 = p_resolution this \<and> \<not> p_autoResolution this1" by simp
  with Cons.IH[OF r] Cons.prems show ?case by simp
qed

lemma run_keeps_onerror:
  assumes "run rv h ops this = Inr this'" and "onerror (image_obj this) = None"
  shows "onerror (image_obj this') = None"
  using assms
proof (induction ops arbitrary: this)
  case Nil
  then show ?case by simp
next
  case (Cons a ops)
  from Cons.prems(1) obtain this1 where s: "step rv h a this = Inr this1"
    and r: "run rv h ops this1 = Inr this'"
    by (auto split: sum.splits)
  from step_keeps_onerror[OF s] Cons.prems Cons.IH[OF r] show ?case by simp
qed

lemma run_keeps_loading:
  assumes "run rv h ops this = Inr this'" and "ImageLoad \<notin> set ops"
    and "p_loading this" and "onerror (image_obj this) = None"
  shows "p_loading this' \<and> decodes this' = decodes this \<and> draws this' = draws this"
  using assms
proof (induction ops arbitrary: this)
  case Nil
  then show ?case by simp
next
  case (Cons a ops)
  from Cons.prems(1) obtain this1 where s: "step rv h a this = Inr this1"
    and r: "run rv h ops this1 = Inr this'"
    by (auto split: sum.splits)
  from Cons.prems have a: "a \<noteq> ImageLoad" by auto
  from step_keeps_loading[OF s a] Cons.prems
  have 1: "p_loading this1 \<and> decodes this1 = decodes this \<and> draws this1 = draws this" by simp
  have 2: "onerror (image_obj this1) = None"
    using step_keeps_onerror[OF s] Cons.prems by simp
  from Cons.IH[OF r] Cons.prems 1 2 show ?case by simp
qed

lemma run_keeps_dirty:
  assumes "run rv h ops this = Inr this'" and "ImageLoad \<notin> set ops"
    and "UpdateTexture \<notin> set ops"
    and "p_loading this" and "onerror (image_obj this) = None" and "dirty this"
  shows "dirty this'"
  using assms
proof (induction ops arbitrary: this)
  case Nil
  then show ?case by simp
next
  case (Cons a ops)
  from Cons.prems(1) obtain this1 where s: "step rv h a this = Inr this1"
    and r: "run rv h ops this1 = Inr this'"
    by (auto split: sum.splits)
  from Cons.prems have a: "a \<noteq> ImageLoad" "a \<noteq> UpdateTexture" by auto
  have 1: "p_loading this1" using step_keeps_loading[OF s a(1)] Cons.prems by simp
  have 2: "onerror (image_obj this1) = None"
    using step_keeps_onerror[OF s] Cons.prems by simp
  have 3: "dirty this1" using step_keeps_dirty[OF s a] Cons.prems by simp
  from Cons.IH[OF r] Cons.prems 1 2 3 show ?case by simp
qed

lemma run_one_decode_per_load:
  assumes "run rv h ops this = Inr this'" and "onerror (image_obj this) = None"
  shows "decodes this' + (if p_loading this' then 0 else 1)
       \<le> decodes this + (if p_loading this then 0 else 1) + count_list ops ImageLoad"
  using assms
proof (induction ops arbitrary: this)
  case Nil
  then show ?case by simp
next
  case (Cons a ops)
  from Cons.prems(1) obtain this1 where s: "step rv h a this = Inr this1"
    and r: "run rv h ops this1 = Inr this'"
    by (auto split: sum.splits)
  have 1: "onerror (image_obj this1) = None"
    using step_keeps_onerror[OF s] Cons.prems by simp
  from step_one_decode_per_load[OF s Cons.prems(2)] Cons.IH[OF r 1]
  show ?case by (simp split: if_splits)
qed

subsection \<open>A live instance does not throw\<close>

lemma canvasDimension_in_range:
  "0 \<le> v \<Longrightarrow> v \<le> 2147483647 \<Longrightarrow> canvasDimension dflt v = v"
  by (simp add: canvasDimension_def Let_def)

lemma updateText_pass:
  assumes "alive this" and "p_style this = Some style"
    and "dirty this \<or> \<not> rd \<or> localStyleID this \<noteq> styleID style"
  shows "\<exists>this'. updateText h rd box this = Inr this' \<and> alive this'
    \<and> canvas_width (canvas_obj this') =
        canvasDimension 300
          (canvasSize h (real_of_int \<lceil>fst box\<rceil>) (padding style) (p_resolution this))
    \<and> canvas_height (canvas_obj this') =
        canvasDimension 150
          (canvasSize h (real_of_int \<lceil>snd box\<rceil>) (padding style) (p_resolution this))
    \<and> measurements this' = Suc (measurements this)
    \<and> p_loading this' \<and> p_style this' = Some style \<and> sprite this' = sprite this
    \<and> p_resolution this' = p_resolution this
    \<and> decodes this' = (if p_loading this then decodes this else Suc (decodes this))
    \<and> onerror (image_obj this') = onerror (image_obj this)
    \<and> (dirty this \<longrightarrow> dirty this')
    \<and> (p_loading this \<longrightarrow>
          image_obj this' = image_obj this \<and> effects this' = effects this @ [Measured box])
    \<and> (\<not> p_loading this \<longrightarrow> onload (image_obj this') \<noteq> None)"
  using assms unfolding updateText_def alive_def
  by (auto simp: Let_def measurements_def decodes_def split: option.splits)

lemma updateText_total:
  assumes "alive this"
  shows "\<exists>this'. updateText h rd box this = Inr this' \<and> alive this'"
  using assms unfolding updateText_def alive_def
  by (auto simp: Let_def split: option.splits)

text \<open>
  What \<open>updateTexture\<close> writes into the texture before it hands it to \<open>setRealSize\<close>,
  in terms of the canvas the call leaves.
\<close>

lemma updateTexture_total:
  assumes "p_style this = Some style" and "texture this \<noteq> None" and "canvas this = Ref"
    and "context2d this = Ref"
  shows "\<exists>this' tex1. updateTexture h this = Inr this'
    \<and> texture this' =
          Some (setRealSize h (canvas_width (canvas_obj this')) (canvas_height (canvas_obj this'))
                  (p_resolution this) tex1)
    \<and> p_resolution this' = p_resolution this
    \<and> rect_width (tex_frame tex1) =
          divD h (real_of_int (canvas_width (canvas_obj this'))) (p_resolution this)
    \<and> rect_width (tex_trim tex1) =
          divD h (real_of_int (canvas_width (canvas_obj this'))) (p_resolution this)
    \<and> rect_height (tex_frame tex1) =
          divD h (real_of_int (canvas_height (canvas_obj this'))) (p_resolution this)
    \<and> rect_height (tex_trim tex1) =
          divD h (real_of_int (canvas_height (canvas_obj this'))) (p_resolution this)
    \<and> rect_x (tex_trim tex1) = - (if trim style then 0 else padding style)
    \<and> rect_y (tex_trim tex1) = - (if trim style then 0 else padding style)
    \<and> rect_width (tex_orig tex1) =
          subD h (rect_width (tex_trim tex1)) (mulD h (if trim style then 0 else padding style) 2)
    \<and> rect_height (tex_orig tex1) =
          subD h (rect_height (tex_trim tex1)) (mulD h (if trim style then 0 else padding style) 2)
    \<and> \<not> dirty this'"
  using assms unfolding updateTexture_def
  by (auto simp: Let_def split: option.splits)

lemma updateTexture_js_total:
  assumes "p_style this = Some style" and "texture this \<noteq> None" and "canvas this = Ref"
    and "context2d this = Ref"
  shows "\<exists>this' tex1. updateTexture_js h this = Inr this'
    \<and> texture this' =
          Some (setRealSize h (canvas_width (canvas_obj this')) (canvas_height (canvas_obj this'))
                  (p_resolution this) tex1)
    \<and> p_resolution this' = p_resolution this
    \<and> rect_width (tex_frame tex1) =
          real_of_int \<lceil>divD h (real_of_int (canvas_width (canvas_obj this'))) (p_resolution this)\<rceil>
    \<and> rect_width (tex_trim tex1) =
          real_of_int \<lceil>divD h (real_of_int (canvas_width (canvas_obj this'))) (p_resolution this)\<rceil>
    \<and> rect_height (tex_frame tex1) =
          real_of_int \<lceil>divD h (real_of_int (canvas_height (canvas_obj this'))) (p_resolution this)\<rceil>
    \<and> rect_height (tex_trim tex1) =
          real_of_int \<lceil>divD h (real_of_int (canvas_height (canvas_obj this'))) (p_resolution this)\<rceil>
    \<and> rect_x (tex_trim tex1) = - (if trim style then 0 else padding style)
    \<and> rect_y (tex_trim tex1) = - (if trim style then 0 else padding style)
    \<and> rect_width (tex_orig tex1) =
          subD h (rect_width (tex_trim tex1)) (mulD h (if trim style then 0 else padding style) 2)
    \<and> rect_height (tex_orig tex1) =
          subD h (rect_height (tex_trim tex1)) (mulD h (if trim style then 0 else padding style) 2)
    \<and> \<not> dirty this'"
  using assms unfolding updateTexture_js_def
  by (auto simp: Let_def split: option.splits)

lemma updateTexture_js_alive:
  assumes "alive_js this" and "p_style this = Some style"
  shows "\<exists>this'. updateTexture_js h this = Inr this' \<and> alive_js this'
    \<and> (\<not> trim style \<longrightarrow> canvas_obj this' = canvas_obj this)
    \<and> p_style this' = Some style \<and> p_resolution this' = p_resolution this
    \<and> p_text this' = p_text this"
  using assms unfolding updateTexture_js_def alive_js_def
  by (auto simp: Let_def split: option.splits)

lemma updateText_js_pass:
  assumes "alive_js this" and "p_style this = Some style"
    and "dirty this \<or> \<not> rd \<or> localStyleID this \<noteq> styleID style"
    and "templateDiv h style (templateText this)"
  shows "\<exists>this'. updateText_js h rd box this = Inr this' \<and> alive_js this'
    \<and> (\<not> trim style \<or> p_loading this \<longrightarrow>
          canvas_width (canvas_obj this') =
            canvasDimension 300 (canvasSize h (fst box) (padding style) (p_resolution this))
        \<and> canvas_height (canvas_obj this') =
            canvasDimension 150 (canvasSize h (snd box) (padding style) (p_resolution this)))
    \<and> measurements this' = Suc (measurements this)
    \<and> p_loading this' \<and> p_resolution this' = p_resolution this \<and> p_style this' = Some style
    \<and> p_text this' = p_text this
    \<and> (p_loading this \<longrightarrow> image_obj this' = image_obj this \<and> (dirty this \<longrightarrow> dirty this'))"
proof (cases "p_loading this")
  case True
  with assms show ?thesis
    unfolding updateText_js_def alive_js_def
    by (auto simp: Let_def measurements_def templateText_def)
next
  case False
  define this3 where "this3 = (let this1 = (if localStyleID this \<noteq> styleID style
          then this\<lparr>dirty := True, localStyleID := styleID style\<rparr> else this);
        cw = canvasDimension 300 (canvasSize h (fst box) (padding style) (p_resolution this));
        ch = canvasDimension 150 (canvasSize h (snd box) (padding style) (p_resolution this));
        this2 = this1\<lparr>effects := effects this1 @
                   [Measured box, Scale (p_resolution this) (p_resolution this),
                    ClearRect 0 0 (real_of_int cw) (real_of_int ch)],
                 canvas_obj := (canvas_obj this1)\<lparr>canvas_width := cw, canvas_height := ch\<rparr>\<rparr>;
        svg = \<lparr>doc_width = 2048, doc_height = 2048, doc_style = style,
                 doc_html = templateText this2\<rparr>
      in this2\<lparr>p_loading := True,
           image_obj := (image_obj this2)
             \<lparr>src := DataURL svg,
              onload := Some \<lparr>h_resolution = p_resolution this, h_width = fst box,
                               h_height = snd box\<rparr>\<rparr>,
           effects := effects this2 @ [DecodeStarted svg]\<rparr>)"
  have call: "updateText_js h rd box this = updateTexture_js h this3"
    using assms False unfolding updateText_js_def alive_js_def this3_def
    by (auto simp: Let_def templateText_def)
  have a3: "alive_js this3" "p_style this3 = Some style"
    "measurements this3 = Suc (measurements this)" "p_loading this3"
    "p_resolution this3 = p_resolution this" "p_text this3 = p_text this"
    "canvas_width (canvas_obj this3) =
       canvasDimension 300 (canvasSize h (fst box) (padding style) (p_resolution this))"
    "canvas_height (canvas_obj this3) =
       canvasDimension 150 (canvasSize h (snd box) (padding style) (p_resolution this))"
    using assms unfolding this3_def alive_js_def
    by (auto simp: Let_def measurements_def)
  from updateTexture_js_alive[OF a3(1,2), of h] obtain this' where
    t: "updateTexture_js h this3 = Inr this'" "alive_js this'"
      "\<not> trim style \<longrightarrow> canvas_obj this' = canvas_obj this3" "p_style this' = Some style"
      "p_text this' = p_text this3"
    by blast
  from updateTexture_js_keeps[OF t(1)] a3 t call False show ?thesis by auto
qed

section \<open>Canvas size after a rasterization pass\<close>

lemma example_pending_fields:
  "updateText host0 True (21 / 2, 20) example = Inr example_pending"
  "alive example_pending" "p_loading example_pending" "dirty example_pending"
  "onerror (image_obj example_pending) = None" "p_style example_pending = Some style0"
  "onload (image_obj example_pending) \<noteq> None" "p_resolution example_pending = 2"
proof -
  from updateText_pass[OF example_fields(6,7), of True host0 "(21 / 2, 20)"] example_fields
  obtain this' where u: "updateText host0 True (21 / 2, 20) example = Inr this'"
    and f: "alive this'" "p_loading this'" "dirty this'" "onerror (image_obj this') = None"
      "p_style this' = Some style0" "onload (image_obj this') \<noteq> None" "p_resolution this' = 2"
    by auto
  from u have e: "example_pending = this'" by (simp add: example_pending_def)
  from u f e show "updateText host0 True (21 / 2, 20) example = Inr example_pending"
    "alive example_pending" "p_loading example_pending" "dirty example_pending"
    "onerror (image_obj example_pending) = None" "p_style example_pending = Some style0"
    "onload (image_obj example_pending) \<noteq> None" "p_resolution example_pending = 2"
    by simp_all
qed

lemma example_trim_fields:
  "alive example_trim" "p_style example_trim = Some style_trim" "dirty example_trim"
  "p_resolution example_trim = 2" "\<not> p_loading example_trim"
  "alive_js example_trim_js" "p_style example_trim_js = Some style_trim" "dirty example_trim_js"
  "p_resolution example_trim_js = 2" "\<not> p_loading example_trim_js"
  by (simp_all add: example_trim_def example_trim_js_def new_HTMLText_def new_HTMLText_js_def
      set_style_def set_text_def coerceText_def sanitise_Hi Let_def alive_def alive_js_def)

lemma example_neg_fields:
  "alive example_neg" "p_style example_neg = Some style_neg" "dirty example_neg"
  "p_resolution example_neg = 2"
  by (simp_all add: example_neg_def new_HTMLText_def set_style_def set_text_def coerceText_def
      sanitise_Hi Let_def alive_def)

lemma host0_exact:
  "roundDouble host0 x = x" "templateDiv host0 style ''Hi''" "templateDiv host0 style ''Ho''"
  by (simp_all add: host0_def)

lemma example_js_template:
  "templateText example_js = ''Hi''" "templateText example_trim_js = ''Hi''"
  by (simp_all add: templateText_def example_js_fields example_trim_js_def new_HTMLText_js_def
      set_style_def set_text_def coerceText_def sanitise_Hi Let_def)

subsection \<open>The load event\<close>

lemma updateTexture_alive:
  assumes "alive this" and "p_style this = Some style"
  shows "\<exists>this'. updateTexture h this = Inr this' \<and> alive this'
    \<and> (\<not> trim style \<longrightarrow> canvas_obj this' = canvas_obj this)"
  using assms unfolding updateTexture_def alive_def
  by (auto simp: Let_def split: option.splits)

lemma fire_load_untrimmed:
  assumes "alive this" and "p_style this = Some style" and "\<not> trim style"
  shows "\<exists>this'. fire_load h this = Inr this' \<and> canvas_obj this' = canvas_obj this"
proof (cases "onload (image_obj this)")
  case None
  then show ?thesis by (simp add: fire_load_def)
next
  case (Some cl)
  define this1 where "this1 = this\<lparr>effects := effects this @
      [Scale (h_resolution cl) (h_resolution cl),
       ClearRect 0 0 (real_of_int (canvas_width (canvas_obj this)))
         (real_of_int (canvas_height (canvas_obj this))),
       DrawImage (src (image_obj this)) (h_width cl) (h_height cl)],
      image_obj := (image_obj this)\<lparr>src := NoSrc, onload := None\<rparr>,
      p_loading := False\<rparr>"
  have 1: "alive this1" "p_style this1 = Some style" "canvas_obj this1 = canvas_obj this"
    using assms by (simp_all add: this1_def alive_def)
  have "fire_load h this = updateTexture h this1"
    using Some by (simp add: fire_load_def image_onload_def Let_def this1_def)
  with updateTexture_alive[OF 1(1,2), of h] assms(3) 1(3) show ?thesis by auto
qed

lemma fire_load_js_untrimmed:
  assumes "alive_js this" and "p_style this = Some style" and "\<not> trim style"
  shows "\<exists>this'. fire_load_js h this = Inr this' \<and> canvas_obj this' = canvas_obj this"
proof (cases "onload (image_obj this)")
  case None
  then show ?thesis by (simp add: fire_load_js_def)
next
  case (Some cl)
  define this1 where "this1 = this\<lparr>effects := effects this @
      [DrawImage (src (image_obj this)) (h_width cl) (h_height cl)],
      image_obj := (image_obj this)\<lparr>onload := None, src := NoSrc\<rparr>,
      p_loading := False\<rparr>"
  have 1: "alive_js this1" "p_style this1 = Some style" "canvas_obj this1 = canvas_obj this"
    using assms by (simp_all add: this1_def alive_js_def)
  have "fire_load_js h this = updateTexture_js h this1"
    using Some by (simp add: fire_load_js_def image_onload_js_def Let_def this1_def)
  with updateTexture_js_alive[OF 1(1,2), of h] assms(3) 1(3) show ?thesis by auto
qed

text \<open>
  Claim C1, as amended.  A call of \<^verbatim>\<open>updateText\<close> that is not skipped by the dirty test
  assigns to the canvas, on each axis, the value \<open>\<lceil>(max 1 w + 2 * padding) * resolution\<rceil>\<close>
  computed in doubles (each sum and product rounded), where \<open>w\<close> is the measured dimension,
  rounded up in the TypeScript revision and as measured in the JavaScript one.  The canvas
  holds that value when it lies between 0 and 2147483647, and otherwise what the attribute
  makes of it.  In the TypeScript revision this is the canvas at the return of
  \<^verbatim>\<open>updateText\<close>, whatever the style; when \<^verbatim>\<open>style.trim\<close> is unset it is, in both revisions
  (in the JavaScript one provided the text parses to a \<^verbatim>\<open>div\<close>), the canvas at the return
  and still the canvas after the \<^verbatim>\<open>load\<close> event of the image has been handled.
\<close>

theorem C1_canvas_size_unless_trimmed:
  assumes "p_style this = Some style"
    and "dirty this \<or> \<not> respectDirty \<or> localStyleID this \<noteq> styleID style"
  shows
    "(alive this \<longrightarrow>
        (\<exists>this'. updateText h respectDirty box this = Inr this' \<and>
           (let W = \<lceil>roundDouble h (roundDouble h (max 1 (real_of_int \<lceil>fst box\<rceil>)
                        + roundDouble h (2 * padding style)) * p_resolution this)\<rceil>;
                H = \<lceil>roundDouble h (roundDouble h (max 1 (real_of_int \<lceil>snd box\<rceil>)
                        + roundDouble h (2 * padding style)) * p_resolution this)\<rceil>
            in canvas_width (canvas_obj this') = canvasDimension 300 W \<and>
               canvas_height (canvas_obj this') = canvasDimension 150 H \<and>
               (0 \<le> W \<and> W \<le> 2147483647 \<longrightarrow> canvas_width (canvas_obj this') = W) \<and>
               (0 \<le> H \<and> H \<le> 2147483647 \<longrightarrow> canvas_height (canvas_obj this') = H)) \<and>
           (\<not> trim style \<longrightarrow>
              (\<exists>this''. fire_load h this' = Inr this'' \<and> canvas_obj this'' = canvas_obj this')))) \<and>
     (alive_js this \<and> \<not> trim style \<and> templateDiv h style (templateText this) \<longrightarrow>
        (\<exists>this'. updateText_js h respectDirty box this = Inr this' \<and>
           (let W = \<lceil>roundDouble h (roundDouble h (max 1 (fst box)
                        + roundDouble h (2 * padding style)) * p_resolution this)\<rceil>;
                H = \<lceil>roundDouble h (roundDouble h (max 1 (snd box)
                        + roundDouble h (2 * padding style)) * p_resolution this)\<rceil>
            in canvas_width (canvas_obj this') = canvasDimension 300 W \<and>
               canvas_height (canvas_obj this') = canvasDimension 150 H \<and>
               (0 \<le> W \<and> W \<le> 2147483647 \<longrightarrow> canvas_width (canvas_obj this') = W) \<and>
               (0 \<le> H \<and> H \<le> 2147483647 \<longrightarrow> canvas_height (canvas_obj this') = H)) \<and>
           (\<exists>this''. fire_load_js h this' = Inr this'' \<and> canvas_obj this'' = canvas_obj this')))"
proof (intro conjI impI)
  assume a: "alive this"
  from updateText_pass[OF a assms, of h box] obtain this' where
    u: "updateText h respectDirty box this = Inr this'" "alive this'" "p_style this' = Some style"
      "canvas_width (canvas_obj this') =
         canvasDimension 300
           (canvasSize h (real_of_int \<lceil>fst box\<rceil>) (padding style) (p_resolution this))"
      "canvas_height (canvas_obj this') =
         canvasDimension 150
           (canvasSize h (real_of_int \<lceil>snd box\<rceil>) (padding style) (p_resolution this))"
    by blast
  have "\<not> trim style \<longrightarrow>
      (\<exists>this''. fire_load h this' = Inr this'' \<and> canvas_obj this'' = canvas_obj this')"
    using fire_load_untrimmed[OF u(2,3), of h] by blast
  with u show "\<exists>this'. updateText h respectDirty box this = Inr this' \<and>
           (let W = \<lceil>roundDouble h (roundDouble h (max 1 (real_of_int \<lceil>fst box\<rceil>)
                        + roundDouble h (2 * padding style)) * p_resolution this)\<rceil>;
                H = \<lceil>roundDouble h (roundDouble h (max 1 (real_of_int \<lceil>snd box\<rceil>)
                        + roundDouble h (2 * padding style)) * p_resolution this)\<rceil>
            in canvas_width (canvas_obj this') = canvasDimension 300 W \<and>
               canvas_height (canvas_obj this') = canvasDimension 150 H \<and>
               (0 \<le> W \<and> W \<le> 2147483647 \<longrightarrow> canvas_width (canvas_obj this') = W) \<and>
               (0 \<le> H \<and> H \<le> 2147483647 \<longrightarrow> canvas_height (canvas_obj this') = H)) \<and>
           (\<not> trim style \<longrightarrow>
              (\<exists>this''. fire_load h this' = Inr this'' \<and> canvas_obj this'' = canvas_obj this'))"
    by (simp add: canvasSize_def addD_def mulD_def mult.commute Let_def
        canvasDimension_in_range)
next
  assume a: "alive_js this \<and> \<not> trim style \<and> templateDiv h style (templateText this)"
  from updateText_js_pass[OF _ assms, of h box] a obtain this' where
    u: "updateText_js h respectDirty box this = Inr this'" "alive_js this'"
      "canvas_width (canvas_obj this') =
         canvasDimension 300 (canvasSize h (fst box) (padding style) (p_resolution this))"
      "canvas_height (canvas_obj this') =
         canvasDimension 150 (canvasSize h (snd box) (padding style) (p_resolution this))"
      and s: "p_style this' = Some style"
    by blast
  have "\<exists>this''. fire_load_js h this' = Inr this'' \<and> canvas_obj this'' = canvas_obj this'"
    using fire_load_js_untrimmed[OF u(2) s, of h] a by blast
  with u show "\<exists>this'. updateText_js h respectDirty box this = Inr this' \<and>
           (let W = \<lceil>roundDouble h (roundDouble h (max 1 (fst box)
                        + roundDouble h (2 * padding style)) * p_resolution this)\<rceil>;
                H = \<lceil>roundDouble h (roundDouble h (max 1 (snd box)
                        + roundDouble h (2 * padding style)) * p_resolution this)\<rceil>
            in canvas_width (canvas_obj this') = canvasDimension 300 W \<and>
               canvas_height (canvas_obj this') = canvasDimension 150 H \<and>
               (0 \<le> W \<and> W \<le> 2147483647 \<longrightarrow> canvas_width (canvas_obj this') = W) \<and>
               (0 \<le> H \<and> H \<le> 2147483647 \<longrightarrow> canvas_height (canvas_obj this') = H)) \<and>
           (\<exists>this''. fire_load_js h this' = Inr this'' \<and> canvas_obj this'' = canvas_obj this')"
    by (simp add: canvasSize_def addD_def mulD_def mult.commute Let_def
        canvasDimension_in_range)
qed

text \<open>The hypotheses of C1 hold of the two plain instances, measured as 10.5 by 20.\<close>

theorem C1_witness:
  "p_style example = Some style0 \<and> dirty example \<and> alive example \<and>
   (\<exists>this'. updateText host0 True (21 / 2, 20) example = Inr this' \<and>
      canvas_width (canvas_obj this') = 38 \<and> canvas_height (canvas_obj this') = 56 \<and>
      (\<exists>this''. fire_load host0 this' = Inr this'' \<and> canvas_obj this'' = canvas_obj this')) \<and>
   p_style example_js = Some style0 \<and> dirty example_js \<and> alive_js example_js \<and>
   \<not> trim style0 \<and> templateDiv host0 style0 (templateText example_js) \<and>
   (\<exists>this'. updateText_js host0 True (21 / 2, 20) example_js = Inr this' \<and>
      canvas_width (canvas_obj this') = 37 \<and> canvas_height (canvas_obj this') = 56 \<and>
      (\<exists>this''. fire_load_js host0 this' = Inr this'' \<and> canvas_obj this'' = canvas_obj this'))"
  using C1_canvas_size_unless_trimmed[of example style0 True host0 "(21 / 2, 20)"]
    C1_canvas_size_unless_trimmed[of example_js style0 True host0 "(21 / 2, 20)"]
  by (simp add: example_fields example_js_fields style0_def host0_exact example_js_template
      Let_def canvasDimension_def cong: conj_cong)

lemma example_trim_decoded:
  "updateText host0 True (21 / 2, 20) example_trim = Inr X \<Longrightarrow> fire_load host0 X = Inr Y \<Longrightarrow>
     canvas_width (canvas_obj Y) = 5 \<and> canvas_height (canvas_obj Y) = 2"
  by (auto simp add: example_trim_def new_HTMLText_def set_style_def set_text_def
      coerceText_def sanitise_Hi updateText_def updateTexture_def Let_def style_trim_def
      host0_def canvasSize_def canvasDimension_def addD_def mulD_def divD_def subD_def
      tex0_def new_Rectangle_def fire_load_def image_onload_def)

lemma example_neg_sized:
  "updateText host0 True (3, 3) example_neg = Inr X \<Longrightarrow>
     canvas_width (canvas_obj X) = 300 \<and> canvas_height (canvas_obj X) = 150"
  by (auto simp add: example_neg_def new_HTMLText_def set_style_def set_text_def
      coerceText_def sanitise_Hi updateText_def Let_def style_neg_def
      host0_def canvasSize_def canvasDimension_def addD_def mulD_def)

text \<open>
  The claim as stated fails in two ways.  When \<^verbatim>\<open>style.trim\<close> is set: the rasterization is
  complete when the closure of \<^verbatim>\<open>updateText\<close> has drawn the decoded image, and the closure
  ends with \<^verbatim>\<open>updateTexture\<close>, which gives the canvas the size of the trimmed bitmap (5) in
  place of the computed 38.  When the computed value is negative (padding \<open>- 4\<close> around a
  box of 3 by 3 gives \<open>- 10\<close>): the canvas takes its default width of 300.
\<close>

theorem C1_counterexample:
  "\<not> isl (updateText host0 True (21 / 2, 20) example_trim) \<and>
   \<not> isl (fire_load host0 (projr (updateText host0 True (21 / 2, 20) example_trim))) \<and>
   canvas_width (canvas_obj
     (projr (fire_load host0 (projr (updateText host0 True (21 / 2, 20) example_trim))))) = 5 \<and>
   \<lceil>(max 1 (real_of_int \<lceil>21 / 2 :: real\<rceil>) + 2 * padding style_trim) * p_resolution example_trim\<rceil> = 38 \<and>
   \<not> isl (updateText host0 True (3, 3) example_neg) \<and>
   canvas_width (canvas_obj (projr (updateText host0 True (3, 3) example_neg))) = 300 \<and>
   \<lceil>(max 1 (real_of_int \<lceil>3 :: real\<rceil>) + 2 * padding style_neg) * p_resolution example_neg\<rceil> = - 10"
proof -
  from updateText_pass[OF example_trim_fields(1,2), of True host0 "(21 / 2, 20)"]
    example_trim_fields
  obtain X where x: "updateText host0 True (21 / 2, 20) example_trim = Inr X" "alive X"
    "p_style X = Some style_trim"
    by auto
  have "\<exists>Y. fire_load host0 X = Inr Y"
  proof (cases "onload (image_obj X)")
    case None
    then show ?thesis by (simp add: fire_load_def)
  next
    case (Some cl)
    have "alive (X\<lparr>effects := effects X @
      [Scale (h_resolution cl) (h_resolution cl),
       ClearRect 0 0 (real_of_int (canvas_width (canvas_obj X)))
         (real_of_int (canvas_height (canvas_obj X))),
       DrawImage (src (image_obj X)) (h_width cl) (h_height cl)],
      image_obj := (image_obj X)\<lparr>src := NoSrc, onload := None\<rparr>,
      p_loading := False\<rparr>)" (is "alive ?X1")
      using x(2) by (simp add: alive_def)
    moreover have "p_style ?X1 = Some style_trim" using x(3) by simp
    ultimately obtain Y where "updateTexture host0 ?X1 = Inr Y"
      using updateTexture_alive by blast
    with Some show ?thesis by (simp add: fire_load_def image_onload_def Let_def)
  qed
  then obtain Y where y: "fire_load host0 X = Inr Y" by blast
  from updateText_pass[OF example_neg_fields(1,2), of True host0 "(3, 3)"] example_neg_fields
  obtain Z where z: "updateText host0 True (3, 3) example_neg = Inr Z" by auto
  from example_trim_decoded[OF x(1) y] example_neg_sized[OF z] x(1) y z
  show ?thesis by (simp add: example_trim_fields example_neg_fields style_trim_def style_neg_def)
qed

section \<open>Texture metadata\<close>

lemma host0_frameFollowsBase: "frameFollowsBase host0"
  by (simp add: frameFollowsBase_def host0_def divD_def)

text \<open>
  Claim C2, as amended.  On a host whose \<^verbatim>\<open>setRealSize\<close> makes the frame follow the base
  texture, and at a resolution other than 0, a call of \<^verbatim>\<open>updateTexture\<close> on an instance that
  has its style, texture, canvas and context returns, and then: the frame has the canvas
  width and height divided by the resolution, in both revisions; the trim rectangle has the
  same width and height in the TypeScript revision and that quotient rounded up in the
  JavaScript revision; \<open>trim.x\<close> and \<open>trim.y\<close> are minus the padding, taken as 0 when
  \<^verbatim>\<open>style.trim\<close> is set; \<open>orig\<close> is the frame less twice the padding in the TypeScript
  revision and the trim rectangle less twice the padding in the JavaScript revision; and the
  dirty flag is cleared.  The canvas is the one the call leaves, after any trimming, and
  quotient, product and difference are those of doubles.
\<close>

theorem C2_texture_follows_canvas:
  assumes "frameFollowsBase h" and "p_resolution this \<noteq> 0"
    and "p_style this = Some style" and "texture this \<noteq> None" and "canvas this = Ref"
    and "context2d this = Ref"
  shows
    "(\<exists>this' tex'. updateTexture h this = Inr this' \<and> texture this' = Some tex' \<and>
        rect_width (tex_frame tex') =
          divD h (real_of_int (canvas_width (canvas_obj this'))) (p_resolution this') \<and>
        rect_width (tex_trim tex') =
          divD h (real_of_int (canvas_width (canvas_obj this'))) (p_resolution this') \<and>
        rect_height (tex_frame tex') =
          divD h (real_of_int (canvas_height (canvas_obj this'))) (p_resolution this') \<and>
        rect_height (tex_trim tex') =
          divD h (real_of_int (canvas_height (canvas_obj this'))) (p_resolution this') \<and>
        rect_x (tex_trim tex') = - (if trim style then 0 else padding style) \<and>
        rect_y (tex_trim tex') = - (if trim style then 0 else padding style) \<and>
        rect_width (tex_orig tex') =
          subD h (rect_width (tex_frame tex')) (mulD h (if trim style then 0 else padding style) 2) \<and>
        rect_height (tex_orig tex') =
          subD h (rect_height (tex_frame tex')) (mulD h (if trim style then 0 else padding style) 2) \<and>
        \<not> dirty this') \<and>
     (\<exists>this' tex'. updateTexture_js h this = Inr this' \<and> texture this' = Some tex' \<and>
        rect_width (tex_frame tex') =
          divD h (real_of_int (canvas_width (canvas_obj this'))) (p_resolution this') \<and>
        rect_width (tex_trim tex') =
          real_of_int \<lceil>divD h (real_of_int (canvas_width (canvas_obj this'))) (p_resolution this')\<rceil> \<and>
        rect_height (tex_frame tex') =
          divD h (real_of_int (canvas_height (canvas_obj this'))) (p_resolution this') \<and>
        rect_height (tex_trim tex') =
          real_of_int \<lceil>divD h (real_of_int (canvas_height (canvas_obj this'))) (p_resolution this')\<rceil> \<and>
        rect_x (tex_trim tex') = - (if trim style then 0 else padding style) \<and>
        rect_y (tex_trim tex') = - (if trim style then 0 else padding style) \<and>
        rect_width (tex_orig tex') =
          subD h (rect_width (tex_trim tex')) (mulD h (if trim style then 0 else padding style) 2) \<and>
        rect_height (tex_orig tex') =
          subD h (rect_height (tex_trim tex')) (mulD h (if trim style then 0 else padding style) 2) \<and>
        \<not> dirty this')"
proof (rule conjI)
  from updateTexture_total[OF assms(3-6), of h] obtain this' tex1 where
    u: "updateTexture h this = Inr this'"
      "texture this' =
          Some (setRealSize h (canvas_width (canvas_obj this')) (canvas_height (canvas_obj this'))
                  (p_resolution this) tex1)"
      "p_resolution this' = p_resolution this"
      "rect_width (tex_trim tex1) =
          divD h (real_of_int (canvas_width (canvas_obj this'))) (p_resolution this)"
      "rect_height (tex_trim tex1) =
          divD h (real_of_int (canvas_height (canvas_obj this'))) (p_resolution this)"
      "rect_x (tex_trim tex1) = - (if trim style then 0 else padding style)"
      "rect_y (tex_trim tex1) = - (if trim style then 0 else padding style)"
      "rect_width (tex_orig tex1) =
          subD h (rect_width (tex_trim tex1)) (mulD h (if trim style then 0 else padding style) 2)"
      "rect_height (tex_orig tex1) =
          subD h (rect_height (tex_trim tex1)) (mulD h (if trim style then 0 else padding style) 2)"
      "\<not> dirty this'"
    by blast
  let ?t = "setRealSize h (canvas_width (canvas_obj this')) (canvas_height (canvas_obj this'))
              (p_resolution this) tex1"
  from assms(1,2) have f: "tex_trim ?t = tex_trim tex1" "tex_orig ?t = tex_orig tex1"
    "rect_width (tex_frame ?t) =
       divD h (real_of_int (canvas_width (canvas_obj this'))) (p_resolution this)"
    "rect_height (tex_frame ?t) =
       divD h (real_of_int (canvas_height (canvas_obj this'))) (p_resolution this)"
    unfolding frameFollowsBase_def by blast+
  from u f show "\<exists>this' tex'. updateTexture h this = Inr this' \<and> texture this' = Some tex' \<and>
        rect_width (tex_frame tex') =
          divD h (real_of_int (canvas_width (canvas_obj this'))) (p_resolution this') \<and>
        rect_width (tex_trim tex') =
          divD h (real_of_int (canvas_width (canvas_obj this'))) (p_resolution this') \<and>
        rect_height (tex_frame tex') =
          divD h (real_of_int (canvas_height (canvas_obj this'))) (p_resolution this') \<and>
        rect_height (tex_trim tex') =
          divD h (real_of_int (canvas_height (canvas_obj this'))) (p_resolution this') \<and>
        rect_x (tex_trim tex') = - (if trim style then 0 else padding style) \<and>
        rect_y (tex_trim tex') = - (if trim style then 0 else padding style) \<and>
        rect_width (tex_orig tex') =
          subD h (rect_width (tex_frame tex')) (mulD h (if trim style then 0 else padding style) 2) \<and>
        rect_height (tex_orig tex') =
          subD h (rect_height (tex_frame tex')) (mulD h (if trim style then 0 else padding style) 2) \<and>
        \<not> dirty this'"
    by simp
next
  from updateTexture_js_total[OF assms(3-6), of h] obtain this' tex1 where
    u: "updateTexture_js h this = Inr this'"
      "texture this' =
          Some (setRealSize h (canvas_width (canvas_obj this')) (canvas_height (canvas_obj this'))
                  (p_resolution this) tex1)"
      "p_resolution this' = p_resolution this"
      "rect_width (tex_trim tex1) =
          real_of_int \<lceil>divD h (real_of_int (canvas_width (canvas_obj this'))) (p_resolution this)\<rceil>"
      "rect_height (tex_trim tex1) =
          real_of_int \<lceil>divD h (real_of_int (canvas_height (canvas_obj this'))) (p_resolution this)\<rceil>"
      "rect_x (tex_trim tex1) = - (if trim style then 0 else padding style)"
      "rect_y (tex_trim tex1) = - (if trim style then 0 else padding style)"
      "rect_width (tex_orig tex1) =
          subD h (rect_width (tex_trim tex1)) (mulD h (if trim style then 0 else padding style) 2)"
      "rect_height (tex_orig tex1) =
          subD h (rect_height (tex_trim tex1)) (mulD h (if trim style then 0 else padding style) 2)"
      "\<not> dirty this'"
    by blast
  let ?t = "setRealSize h (canvas_width (canvas_obj this')) (canvas_height (canvas_obj this'))
              (p_resolution this) tex1"
  from assms(1,2) have f: "tex_trim ?t = tex_trim tex1" "tex_orig ?t = tex_orig tex1"
    "rect_width (tex_frame ?t) =
       divD h (real_of_int (canvas_width (canvas_obj this'))) (p_resolution this)"
    "rect_height (tex_frame ?t) =
       divD h (real_of_int (canvas_height (canvas_obj this'))) (p_resolution this)"
    unfolding frameFollowsBase_def by blast+
  from u f show "\<exists>this' tex'. updateTexture_js h this = Inr this' \<and> texture this' = Some tex' \<and>
        rect_width (tex_frame tex') =
          divD h (real_of_int (canvas_width (canvas_obj this'))) (p_resolution this') \<and>
        rect_width (tex_trim tex') =
          real_of_int \<lceil>divD h (real_of_int (canvas_width (canvas_obj this'))) (p_resolution this')\<rceil> \<and>
        rect_height (tex_frame tex') =
          divD h (real_of_int (canvas_height (canvas_obj this'))) (p_resolution this') \<and>
        rect_height (tex_trim tex') =
          real_of_int \<lceil>divD h (real_of_int (canvas_height (canvas_obj this'))) (p_resolution this')\<rceil> \<and>
        rect_x (tex_trim tex') = - (if trim style then 0 else padding style) \<and>
        rect_y (tex_trim tex') = - (if trim style then 0 else padding style) \<and>
        rect_width (tex_orig tex') =
          subD h (rect_width (tex_trim tex')) (mulD h (if trim style then 0 else padding style) 2) \<and>
        rect_height (tex_orig tex') =
          subD h (rect_height (tex_trim tex')) (mulD h (if trim style then 0 else padding style) 2) \<and>
        \<not> dirty this'"
    by simp
qed

lemma example_refs:
  "texture example \<noteq> None" "canvas example = Ref" "context2d example = Ref"
  "texture example_js \<noteq> None" "canvas example_js = Ref" "context2d example_js = Ref"
  "p_image example = Ref" "p_image example_js = Ref"
  using example_fields(6) example_js_fields(6) by (simp_all add: alive_def alive_js_def)

lemma example_resolution:
  "p_resolution example \<noteq> 0" "p_resolution example_js \<noteq> 0"
  by (simp_all add: example_fields example_js_fields)

text \<open>The hypotheses of C2 hold of the freshly built instances on the exact host.\<close>

theorem C2_witness:
  "frameFollowsBase host0 \<and> p_resolution example \<noteq> 0 \<and>
   p_style example = Some style0 \<and> texture example \<noteq> None \<and> canvas example = Ref \<and>
   context2d example = Ref \<and>
   (\<exists>this' tex'. updateTexture host0 example = Inr this' \<and> texture this' = Some tex' \<and>
      rect_width (tex_frame tex') = real_of_int (canvas_width (canvas_obj this')) / p_resolution this' \<and>
      rect_width (tex_trim tex') = real_of_int (canvas_width (canvas_obj this')) / p_resolution this' \<and>
      rect_x (tex_trim tex') = - 4 \<and>
      rect_width (tex_orig tex') = rect_width (tex_frame tex') - 8 \<and> \<not> dirty this') \<and>
   p_resolution example_js \<noteq> 0 \<and>
   p_style example_js = Some style0 \<and> texture example_js \<noteq> None \<and> canvas example_js = Ref \<and>
   context2d example_js = Ref \<and>
   (\<exists>this' tex'. updateTexture_js host0 example_js = Inr this' \<and> texture this' = Some tex' \<and>
      rect_width (tex_frame tex') = real_of_int (canvas_width (canvas_obj this')) / p_resolution this' \<and>
      rect_width (tex_trim tex') =
        real_of_int \<lceil>real_of_int (canvas_width (canvas_obj this')) / p_resolution this'\<rceil> \<and>
      rect_x (tex_trim tex') = - 4 \<and>
      rect_width (tex_orig tex') = rect_width (tex_trim tex') - 8 \<and> \<not> dirty this')"
proof -
  from C2_texture_follows_canvas[OF host0_frameFollowsBase example_resolution(1)
      example_fields(7) example_refs(1,2,3)]
  have 1: "\<exists>this' tex'. updateTexture host0 example = Inr this' \<and> texture this' = Some tex' \<and>
      rect_width (tex_frame tex') = real_of_int (canvas_width (canvas_obj this')) / p_resolution this' \<and>
      rect_width (tex_trim tex') = real_of_int (canvas_width (canvas_obj this')) / p_resolution this' \<and>
      rect_x (tex_trim tex') = - 4 \<and>
      rect_width (tex_orig tex') = rect_width (tex_frame tex') - 8 \<and> \<not> dirty this'"
    by (auto simp: style0_def divD_def subD_def mulD_def host0_exact)
  from C2_texture_follows_canvas[OF host0_frameFollowsBase example_resolution(2)
      example_js_fields(7) example_refs(4,5,6)]
  have 2: "\<exists>this' tex'. updateTexture_js host0 example_js = Inr this' \<and> texture this' = Some tex' \<and>
      rect_width (tex_frame tex') = real_of_int (canvas_width (canvas_obj this')) / p_resolution this' \<and>
      rect_width (tex_trim tex') =
        real_of_int \<lceil>real_of_int (canvas_width (canvas_obj this')) / p_resolution this'\<rceil> \<and>
      rect_x (tex_trim tex') = - 4 \<and>
      rect_width (tex_orig tex') = rect_width (tex_trim tex') - 8 \<and> \<not> dirty this'"
    by (auto simp: style0_def divD_def subD_def mulD_def host0_exact)
  from 1 2 example_fields(7) example_js_fields(7) example_refs example_resolution
    host0_frameFollowsBase
  show ?thesis by simp
qed

lemma example_js_texture_update:
  "updateTexture_js host0 example_js = Inr X \<Longrightarrow>
     rect_width (tex_trim (the (texture X))) = 2 \<and> canvas_width (canvas_obj X) = 3 \<and>
     p_resolution X = 2 \<and> rect_width (tex_frame (the (texture X))) = 3 / 2 \<and>
     rect_width (tex_orig (the (texture X))) = - 6"
  by (auto simp add: example_js_def new_HTMLText_js_def set_style_def set_text_def
      coerceText_def sanitise_Hi updateTexture_js_def Let_def style0_def
      host0_def tex0_def new_Rectangle_def divD_def subD_def mulD_def)

text \<open>
  The claim as stated fails in the JavaScript revision: on a canvas 3 pixels wide at
  resolution 2 with padding 4 the trim rectangle is 2 wide, not 1.5, and \<open>orig\<close> is
  \<open>- 6\<close> wide, not the frame width 1.5 less 8.
\<close>

theorem C2_counterexample:
  "\<not> isl (updateTexture_js host0 example_js) \<and>
   rect_width (tex_trim (the (texture (projr (updateTexture_js host0 example_js))))) = 2 \<and>
   real_of_int (canvas_width (canvas_obj (projr (updateTexture_js host0 example_js))))
     / p_resolution (projr (updateTexture_js host0 example_js)) = 3 / 2 \<and>
   rect_width (tex_frame (the (texture (projr (updateTexture_js host0 example_js))))) = 3 / 2 \<and>
   rect_width (tex_orig (the (texture (projr (updateTexture_js host0 example_js))))) = - 6 \<and>
   padding style0 = 4"
proof -
  from updateTexture_js_total[OF example_js_fields(7) example_refs(4,5,6), of host0]
  obtain X where x: "updateTexture_js host0 example_js = Inr X" by blast
  from example_js_texture_update[OF x] x show ?thesis by (simp add: style0_def)
qed

section \<open>Width and height accessors\<close>

text \<open>
  Claim C7, as amended.  Reading \<open>width\<close> or \<open>height\<close> of a dirty instance whose resolution
  is not 0 runs one rasterization pass (the accessor's result state is the state after one
  \<^verbatim>\<open>updateText\<close>, which has measured the element exactly once more) and returns: in the
  TypeScript revision the absolute scale times the canvas dimension, divided by the
  resolution; in the JavaScript revision, provided the text parses to a \<^verbatim>\<open>div\<close>, the
  absolute scale times the dimension of \<^verbatim>\<open>texture.orig\<close>.  Product and quotient are those of
  doubles.
\<close>

theorem C7_size_getters_refresh_once:
  assumes "p_style this = Some style" and "dirty this" and "p_resolution this \<noteq> 0"
  shows
    "(alive this \<longrightarrow>
        (\<exists>this'. updateText h True box this = Inr this' \<and>
           measurements this' = Suc (measurements this) \<and>
           get_width h box this =
             Inr (divD h (mulD h \<bar>scale_x (sprite this')\<bar>
                            (real_of_int (canvas_width (canvas_obj this'))))
                    (p_resolution this'), this') \<and>
           get_height h box this =
             Inr (divD h (mulD h \<bar>scale_y (sprite this')\<bar>
                            (real_of_int (canvas_height (canvas_obj this'))))
                    (p_resolution this'), this'))) \<and>
     (alive_js this \<and> templateDiv h style (templateText this) \<longrightarrow>
        (\<exists>this' tex'. updateText_js h True box this = Inr this' \<and> texture this' = Some tex' \<and>
           measurements this' = Suc (measurements this) \<and>
           get_width_js h box this =
             Inr (mulD h \<bar>scale_x (sprite this')\<bar> (rect_width (tex_orig tex')), this') \<and>
           get_height_js h box this =
             Inr (mulD h \<bar>scale_y (sprite this')\<bar> (rect_height (tex_orig tex')), this')))"
proof (intro conjI impI)
  assume a: "alive this"
  from updateText_pass[OF a assms(1), of True h box] assms(2) obtain this' where
    u: "updateText h True box this = Inr this'" "alive this'"
      "measurements this' = Suc (measurements this)"
    by blast
  from u(2) have "canvas this' = Ref" by (simp add: alive_def)
  with u show "\<exists>this'. updateText h True box this = Inr this' \<and>
           measurements this' = Suc (measurements this) \<and>
           get_width h box this =
             Inr (divD h (mulD h \<bar>scale_x (sprite this')\<bar>
                            (real_of_int (canvas_width (canvas_obj this'))))
                    (p_resolution this'), this') \<and>
           get_height h box this =
             Inr (divD h (mulD h \<bar>scale_y (sprite this')\<bar>
                            (real_of_int (canvas_height (canvas_obj this'))))
                    (p_resolution this'), this')"
    by (simp add: get_width_def get_height_def)
next
  assume a: "alive_js this \<and> templateDiv h style (templateText this)"
  from updateText_js_pass[OF _ assms(1), of True h box] a assms(2) obtain this' where
    u: "updateText_js h True box this = Inr this'" "alive_js this'"
      "measurements this' = Suc (measurements this)"
    by blast
  from u(2) obtain tex' where "texture this' = Some tex'" by (auto simp: alive_js_def)
  with u show "\<exists>this' tex'. updateText_js h True box this = Inr this' \<and> texture this' = Some tex' \<and>
           measurements this' = Suc (measurements this) \<and>
           get_width_js h box this =
             Inr (mulD h \<bar>scale_x (sprite this')\<bar> (rect_width (tex_orig tex')), this') \<and>
           get_height_js h box this =
             Inr (mulD h \<bar>scale_y (sprite this')\<bar> (rect_height (tex_orig tex')), this')"
    by (simp add: get_width_js_def get_height_js_def)
qed

lemma example_width:
  "updateText host0 True (21 / 2, 20) example = Inr X \<Longrightarrow>
     scale_x (sprite X) = 1 \<and> canvas_width (canvas_obj X) = 38 \<and> p_resolution X = 2"
  by (auto simp add: example_def new_HTMLText_def set_style_def set_text_def
      coerceText_def sanitise_Hi updateText_def Let_def style0_def canvasSize_def sprite0_def
      host0_def addD_def mulD_def canvasDimension_def)

lemma example_js_width:
  "updateText_js host0 True (21 / 2, 20) example_js = Inr X \<Longrightarrow>
     scale_x (sprite X) = 1 \<and> canvas_width (canvas_obj X) = 37 \<and> p_resolution X = 2
     \<and> rect_width (tex_orig (the (texture X))) = 11"
  by (auto simp add: example_js_def new_HTMLText_js_def set_style_def set_text_def
      coerceText_def sanitise_Hi updateText_js_def updateTexture_js_def Let_def style0_def
      canvasSize_def sprite0_def host0_def tex0_def new_Rectangle_def templateText_def
      addD_def mulD_def divD_def subD_def canvasDimension_def)

text \<open>The hypotheses of C7 hold of the two plain instances.\<close>

theorem C7_witness:
  "p_style example = Some style0 \<and> dirty example \<and> p_resolution example \<noteq> 0 \<and>
   alive example \<and>
   (\<exists>this'. updateText host0 True (21 / 2, 20) example = Inr this' \<and>
      measurements this' = Suc (measurements example) \<and>
      get_width host0 (21 / 2, 20) example = Inr (19, this')) \<and>
   p_style example_js = Some style0 \<and> dirty example_js \<and> p_resolution example_js \<noteq> 0 \<and>
   alive_js example_js \<and> templateDiv host0 style0 (templateText example_js) \<and>
   (\<exists>this'. updateText_js host0 True (21 / 2, 20) example_js = Inr this' \<and>
      measurements this' = Suc (measurements example_js) \<and>
      get_width_js host0 (21 / 2, 20) example_js = Inr (11, this'))"
proof -
  have t: "templateDiv host0 style0 (templateText example_js)"
    by (simp add: example_js_template host0_exact)
  from C7_size_getters_refresh_once[OF example_fields(7,3) example_resolution(1),
      of host0 "(21 / 2, 20)"] example_fields(6)
  obtain X where x: "updateText host0 True (21 / 2, 20) example = Inr X"
    "measurements X = Suc (measurements example)"
    "get_width host0 (21 / 2, 20) example =
       Inr (divD host0 (mulD host0 \<bar>scale_x (sprite X)\<bar>
              (real_of_int (canvas_width (canvas_obj X)))) (p_resolution X), X)"
    by blast
  from C7_size_getters_refresh_once[OF example_js_fields(7,3) example_resolution(2),
      of host0 "(21 / 2, 20)"] example_js_fields(6) t
  obtain Y tex' where y: "updateText_js host0 True (21 / 2, 20) example_js = Inr Y"
    "texture Y = Some tex'" "measurements Y = Suc (measurements example_js)"
    "get_width_js host0 (21 / 2, 20) example_js =
       Inr (mulD host0 \<bar>scale_x (sprite Y)\<bar> (rect_width (tex_orig tex')), Y)"
    by blast
  from example_width[OF x(1)] example_js_width[OF y(1)] x y example_fields example_js_fields t
  show ?thesis by (simp add: divD_def mulD_def host0_exact)
qed

text \<open>
  The claim as stated fails in the JavaScript revision: with padding 4 and resolution 2 a
  box 10.5 wide gives a canvas of 37 pixels, \<^verbatim>\<open>orig.width\<close> 11 and a width of 11, not 18.5.
\<close>

theorem C7_counterexample:
  "map_sum id fst (get_width_js host0 (21 / 2, 20) example_js) = Inr 11 \<and>
   \<bar>scale_x (sprite (snd (projr (get_width_js host0 (21 / 2, 20) example_js))))\<bar>
     * real_of_int (canvas_width (canvas_obj (snd (projr (get_width_js host0 (21 / 2, 20) example_js)))))
     / p_resolution (snd (projr (get_width_js host0 (21 / 2, 20) example_js))) = 37 / 2"
proof -
  have "templateDiv host0 style0 (templateText example_js)"
    by (simp add: example_js_template host0_exact)
  from updateText_js_pass[OF example_js_fields(6,7) _ this, of True "(21 / 2, 20)"]
    example_js_fields(3)
  obtain Y where y: "updateText_js host0 True (21 / 2, 20) example_js = Inr Y" "alive_js Y"
    by blast
  from y(2) obtain tex' where t: "texture Y = Some tex'" by (auto simp: alive_js_def)
  from example_js_width[OF y(1)] y(1) t show ?thesis
    by (simp add: get_width_js_def mulD_def host0_exact)
qed

section \<open>Destroy and the pending decode\<close>

lemma render_alive:
  assumes "alive this"
  shows "\<exists>this'. render h r box this = Inr this' \<and> alive this'"
proof -
  have "alive (followRenderer r this)" using assms by (simp add: followRenderer_def alive_def)
  from updateText_total[OF this, of h True box] show ?thesis by (simp add: render_def)
qed

lemma example_pending_js_fields:
  "updateText_js host0 True (21 / 2, 20) example_js = Inr example_pending_js"
  "alive_js example_pending_js" "p_loading example_pending_js"
  "p_style example_pending_js = Some style0" "onerror (image_obj example_pending_js) = None"
proof -
  have "templateDiv host0 style0 (templateText example_js)"
    by (simp add: example_js_template host0_exact)
  from updateText_js_pass[OF example_js_fields(6,7) _ this, of True "(21 / 2, 20)"]
    example_js_fields(3)
  obtain this' where u: "updateText_js host0 True (21 / 2, 20) example_js = Inr this'"
    and f: "alive_js this'" "p_loading this'" "p_style this' = Some style0"
    by blast
  from u have e: "example_pending_js = this'" by (simp add: example_pending_js_def)
  from updateText_js_keeps[OF u] example_js_fields(8)
  have "onerror (image_obj this') = None" by simp
  with u f e show "updateText_js host0 True (21 / 2, 20) example_js = Inr example_pending_js"
    "alive_js example_pending_js" "p_loading example_pending_js"
    "p_style example_pending_js = Some style0" "onerror (image_obj example_pending_js) = None"
    by simp_all
qed

text \<open>
  Claim C8.  \<^verbatim>\<open>destroy\<close> on an instance that still has its image (and, in the JavaScript
  revision, its canvas) returns normally, leaves the image with no \<^verbatim>\<open>onload\<close> handler and an
  empty source, and a \<^verbatim>\<open>load\<close> event delivered afterwards neither throws nor changes
  anything: it returns the destroyed instance as it is.  This holds in particular while a
  decode is pending.
\<close>

theorem C8_destroy_detaches_onload:
  assumes "p_image this = Ref"
  shows
    "(\<exists>d. destroy h options this = Inr d \<and> onload (image_obj d) = None \<and>
        src (image_obj d) = NoSrc \<and> fire_load h d = Inr d) \<and>
     (canvas this = Ref \<longrightarrow>
        (\<exists>d. destroy_js h options this = Inr d \<and> onload (image_obj d) = None \<and>
           src (image_obj d) = NoSrc \<and> fire_load_js h d = Inr d))"
  using assms
  by (auto simp: destroy_def destroy_js_def fire_load_def fire_load_js_def Let_def
      split: prod.splits)

text \<open>The hypotheses of C8 hold of the two instances with a pending decode.\<close>

theorem C8_witness:
  "p_image example_pending = Ref \<and> p_loading example_pending \<and>
   onload (image_obj example_pending) \<noteq> None \<and>
   (\<exists>d. destroy host0 NoOptions example_pending = Inr d \<and> onload (image_obj d) = None \<and>
      src (image_obj d) = NoSrc \<and> fire_load host0 d = Inr d) \<and>
   p_image example_pending_js = Ref \<and> canvas example_pending_js = Ref \<and>
   p_loading example_pending_js \<and>
   (\<exists>d. destroy_js host0 NoOptions example_pending_js = Inr d \<and> onload (image_obj d) = None \<and>
      src (image_obj d) = NoSrc \<and> fire_load_js host0 d = Inr d)"
proof -
  have 1: "p_image example_pending = Ref"
    using example_pending_fields(2) by (simp add: alive_def)
  have 2: "p_image example_pending_js = Ref" "canvas example_pending_js = Ref"
    using example_pending_js_fields(2) by (simp_all add: alive_js_def)
  from C8_destroy_detaches_onload[OF 1, of host0 NoOptions]
    C8_destroy_detaches_onload[OF 2(1), of host0 NoOptions] 1 2
    example_pending_fields example_pending_js_fields
  show ?thesis by simp
qed

text \<open>
  The \<^verbatim>\<open>load\<close> event of a pending decode ends with \<^verbatim>\<open>updateTexture\<close> and so clears the
  dirty flag, also when the text or style changed after the decode was started.
\<close>

lemma load_event_clears_dirty:
  assumes "fire_load h this = Inr this'" and "onload (image_obj this) \<noteq> None"
  shows "\<not> dirty this' \<and> \<not> p_loading this'"
  using assms unfolding fire_load_def image_onload_def
  by (auto simp: Let_def dest!: updateTexture_keeps)

lemmas scenario_defs =
  pending_retry_def change_while_pending_def new_HTMLText_def new_HTMLText_js_def
  set_style_def set_text_def coerceText_def sanitise_Hi sanitise_Ho Let_def style0_def host0_def
  canvasSize_def canvasDimension_def addD_def mulD_def divD_def subD_def tex0_def
  new_Rectangle_def sprite0_def followRenderer_def templateText_def
  measurements_def decodes_def

lemma change_while_pending_ts:
  "\<exists>Y X. run TS host0 pending_retry example = Inr Y \<and> dirty Y \<and> p_loading Y \<and>
      p_text Y = Some ''Ho'' \<and> measurements Y = 2 \<and> decodes Y = 1 \<and>
      run TS host0 change_while_pending example = Inr X \<and>
      p_text X = Some ''Ho'' \<and> \<not> dirty X \<and> \<not> p_loading X \<and>
      filter isDecodeStarted (effects X) =
        [DecodeStarted \<lparr>doc_width = 11, doc_height = 20, doc_style = style0,
                         doc_html = ''Hi''\<rparr>] \<and>
      filter isDrawImage (effects X) =
        [DrawImage (DataURL \<lparr>doc_width = 11, doc_height = 20, doc_style = style0,
                              doc_html = ''Hi''\<rparr>) 11 20] \<and>
      render host0 2 (30, 20) X = Inr X"
  by (simp add: scenario_defs example_def updateText_def updateTexture_def fire_load_def
      image_onload_def render_def)

lemma change_while_pending_js:
  "\<exists>Y X. run JS host0 pending_retry example_js = Inr Y \<and> dirty Y \<and> p_loading Y \<and>
      p_text Y = Some ''Ho'' \<and> measurements Y = 2 \<and> decodes Y = 1 \<and>
      run JS host0 change_while_pending example_js = Inr X \<and>
      p_text X = Some ''Ho'' \<and> \<not> dirty X \<and> \<not> p_loading X \<and>
      filter isDecodeStarted (effects X) =
        [DecodeStarted \<lparr>doc_width = 2048, doc_height = 2048, doc_style = style0,
                         doc_html = ''Hi''\<rparr>] \<and>
      filter isDrawImage (effects X) =
        [DrawImage (DataURL \<lparr>doc_width = 2048, doc_height = 2048, doc_style = style0,
                              doc_html = ''Hi''\<rparr>) (21 / 2) 20] \<and>
      render_js host0 2 (30, 20) X = Inr X"
  by (simp add: scenario_defs example_js_def updateText_js_def updateTexture_js_def
      fire_load_js_def image_onload_js_def render_js_def)

text \<open>
  Claim C4 at a concrete sequence.  An instance showing \<open>Hi\<close> is refreshed, which starts the
  decode of \<open>Hi\<close>; its text is set to \<open>Ho\<close> while that decode is pending; a render tick
  follows.  Up to here the claim holds: the tick measures again and starts no decode, one
  decode is in flight, and the dirty flag is still set.  Then the \<^verbatim>\<open>load\<close> event of the
  pending decode arrives: its handler draws the image of \<open>Hi\<close> and ends with
  \<^verbatim>\<open>updateTexture\<close>, which clears the dirty flag.  The text is \<open>Ho\<close>, the only decode ever
  started and the only image ever drawn are those of \<open>Hi\<close>, and a render tick that follows
  is skipped by the dirty test: it returns the instance as it is.  No later tick
  rasterizes the change.  Both revisions behave so.
\<close>

theorem C4_change_while_pending_is_lost:
  "\<not> isl (run TS host0 pending_retry example) \<and>
   dirty (projr (run TS host0 pending_retry example)) \<and>
   p_loading (projr (run TS host0 pending_retry example)) \<and>
   decodes (projr (run TS host0 pending_retry example)) = 1 \<and>
   \<not> isl (run TS host0 change_while_pending example) \<and>
   p_text (projr (run TS host0 change_while_pending example)) = Some ''Ho'' \<and>
   \<not> dirty (projr (run TS host0 change_while_pending example)) \<and>
   \<not> p_loading (projr (run TS host0 change_while_pending example)) \<and>
   filter isDecodeStarted (effects (projr (run TS host0 change_while_pending example))) =
     [DecodeStarted \<lparr>doc_width = 11, doc_height = 20, doc_style = style0, doc_html = ''Hi''\<rparr>] \<and>
   filter isDrawImage (effects (projr (run TS host0 change_while_pending example))) =
     [DrawImage (DataURL \<lparr>doc_width = 11, doc_height = 20, doc_style = style0,
                           doc_html = ''Hi''\<rparr>) 11 20] \<and>
   render host0 2 (30, 20) (projr (run TS host0 change_while_pending example)) =
     run TS host0 change_while_pending example \<and>
   \<not> isl (run JS host0 pending_retry example_js) \<and>
   dirty (projr (run JS host0 pending_retry example_js)) \<and>
   p_loading (projr (run JS host0 pending_retry example_js)) \<and>
   decodes (projr (run JS host0 pending_retry example_js)) = 1 \<and>
   \<not> isl (run JS host0 change_while_pending example_js) \<and>
   p_text (projr (run JS host0 change_while_pending example_js)) = Some ''Ho'' \<and>
   \<not> dirty (projr (run JS host0 change_while_pending example_js)) \<and>
   \<not> p_loading (projr (run JS host0 change_while_pending example_js)) \<and>
   filter isDecodeStarted (effects (projr (run JS host0 change_while_pending example_js))) =
     [DecodeStarted \<lparr>doc_width = 2048, doc_height = 2048, doc_style = style0,
                      doc_html = ''Hi''\<rparr>] \<and>
   filter isDrawImage (effects (projr (run JS host0 change_while_pending example_js))) =
     [DrawImage (DataURL \<lparr>doc_width = 2048, doc_height = 2048, doc_style = style0,
                           doc_html = ''Hi''\<rparr>) (21 / 2) 20] \<and>
   render_js host0 2 (30, 20) (projr (run JS host0 change_while_pending example_js)) =
     run JS host0 change_while_pending example_js"
proof -
  from change_while_pending_ts obtain Y X where
    ts: "run TS host0 pending_retry example = Inr Y" "dirty Y" "p_loading Y" "decodes Y = 1"
      "run TS host0 change_while_pending example = Inr X"
      "p_text X = Some ''Ho''" "\<not> dirty X" "\<not> p_loading X"
      "filter isDecodeStarted (effects X) =
        [DecodeStarted \<lparr>doc_width = 11, doc_height = 20, doc_style = style0,
                         doc_html = ''Hi''\<rparr>]"
      "filter isDrawImage (effects X) =
        [DrawImage (DataURL \<lparr>doc_width = 11, doc_height = 20, doc_style = style0,
                              doc_html = ''Hi''\<rparr>) 11 20]"
      "render host0 2 (30, 20) X = Inr X"
    by blast
  from change_while_pending_js obtain Y' X' where
    js: "run JS host0 pending_retry example_js = Inr Y'" "dirty Y'" "p_loading Y'"
      "decodes Y' = 1"
      "run JS host0 change_while_pending example_js = Inr X'"
      "p_text X' = Some ''Ho''" "\<not> dirty X'" "\<not> p_loading X'"
      "filter isDecodeStarted (effects X') =
        [DecodeStarted \<lparr>doc_width = 2048, doc_height = 2048, doc_style = style0,
                         doc_html = ''Hi''\<rparr>]"
      "filter isDrawImage (effects X') =
        [DrawImage (DataURL \<lparr>doc_width = 2048, doc_height = 2048, doc_style = style0,
                              doc_html = ''Hi''\<rparr>) (21 / 2) 20]"
      "render_js host0 2 (30, 20) X' = Inr X'"
    by blast
  from ts js show ?thesis by simp
qed

section \<open>A decode that fails; manual resolution\<close>

lemma new_HTMLText_onerror:
  "onerror (image_obj (new_HTMLText text style tex sp res)) = None"
  "onerror (image_obj (new_HTMLText_js text style tex sp res)) = None"
  by (simp_all add: new_HTMLText_def new_HTMLText_js_def set_style_def set_text_def Let_def)

text \<open>
  Claim C9.  The constructor leaves the image without an \<^verbatim>\<open>onerror\<close> handler and no call
  or event installs one.  Hence, from a state with a decode pending, along every sequence of
  calls and events without the \<^verbatim>\<open>load\<close> event (the \<^verbatim>\<open>error\<close> event included, which finds
  no handler), the loading flag stays set, no decode is started and no image is drawn.
\<close>

theorem C9_failed_decode_leaves_loading_set:
  assumes "run rv h ops this = Inr final" and "onerror (image_obj this) = None"
  shows
    "onerror (image_obj (new_HTMLText text style tex sp res)) = None \<and>
     onerror (image_obj (new_HTMLText_js text style tex sp res)) = None \<and>
     onerror (image_obj final) = None \<and>
     (p_loading this \<and> ImageLoad \<notin> set ops \<longrightarrow>
        p_loading final \<and> decodes final = decodes this \<and> draws final = draws this)"
  using run_keeps_onerror[OF assms] run_keeps_loading[OF assms(1) _ _ assms(2)]
    new_HTMLText_onerror[of "text" style tex sp res]
  by blast

text \<open>The hypotheses of C9 hold of the instance with a pending decode.\<close>

theorem C9_witness:
  "onerror (image_obj example_pending) = None \<and> p_loading example_pending \<and>
   ImageLoad \<notin> set [ImageError, Render 3 (30, 20)] \<and>
   (\<exists>final. run TS host0 [ImageError, Render 3 (30, 20)] example_pending = Inr final \<and>
      onerror (image_obj final) = None \<and> p_loading final \<and>
      decodes final = decodes example_pending \<and> draws final = draws example_pending)"
proof -
  from render_alive[OF example_pending_fields(2), of host0 3 "(30, 20)"] obtain final where
    r: "render host0 3 (30, 20) example_pending = Inr final" by blast
  then have run: "run TS host0 [ImageError, Render 3 (30, 20)] example_pending = Inr final"
    by (simp add: fire_error_def example_pending_fields(5))
  from C9_failed_decode_leaves_loading_set[OF run example_pending_fields(5)] run
    example_pending_fields
  show ?thesis by simp
qed

text \<open>
  Claim C10.  The resolution setter always clears the auto-resolution flag; when the value
  assigned is the current one, nothing else changes.  After such a write, along every
  sequence of calls and events without another write of the resolution (render passes with
  any renderer resolution included), the resolution is the one written and the flag stays
  cleared.
\<close>

theorem C10_manual_resolution_stops_following_renderer:
  "\<not> p_autoResolution (set_resolution v this) \<and>
   (p_resolution this = v \<longrightarrow> set_resolution v this = this\<lparr>p_autoResolution := False\<rparr>) \<and>
   ((\<forall>a \<in> set ops. \<not> isSetResolution a) \<and> run rv h ops (set_resolution v this) = Inr final
      \<longrightarrow> p_resolution final = v \<and> \<not> p_autoResolution final)"
proof (intro conjI impI)
  show "\<not> p_autoResolution (set_resolution v this)" by (simp add: set_resolution_def Let_def)
  show "set_resolution v this = this\<lparr>p_autoResolution := False\<rparr>" if "p_resolution this = v"
    using that by (simp add: set_resolution_def Let_def)
  assume r: "(\<forall>a \<in> set ops. \<not> isSetResolution a) \<and>
    run rv h ops (set_resolution v this) = Inr final"
  from run_keeps_manual_resolution[of rv h ops "set_resolution v this" final] r
  show "p_resolution final = v" "\<not> p_autoResolution final"
    by (simp_all add: setters_keep)
qed

text \<open>The hypotheses of C10 hold of the plain instance.\<close>

theorem C10_witness:
  "p_resolution example = 2 \<and> p_autoResolution example \<and>
   set_resolution 2 example = example\<lparr>p_autoResolution := False\<rparr> \<and>
   \<not> isSetResolution (Render 5 (30, 20)) \<and> \<not> isSetResolution ImageLoad \<and>
   (\<exists>final. run TS host0 [Render 5 (30, 20), ImageLoad] (set_resolution 3 example) = Inr final \<and>
      p_resolution final = 3 \<and> \<not> p_autoResolution final)"
proof -
  have a: "alive (set_resolution 3 example)"
    using example_fields(6) by (simp add: set_resolution_def Let_def alive_def)
  have s: "p_style (set_resolution 3 example) = Some style0"
    using example_fields(7) by (simp add: set_resolution_def Let_def)
  from render_alive[OF a, of host0 5 "(30, 20)"] obtain t where
    t: "render host0 5 (30, 20) (set_resolution 3 example) = Inr t" "alive t" by blast
  have "p_style t = Some style0"
    using t(1) s
    by (auto simp: render_def followRenderer_def updateText_def Let_def
        split: option.splits if_splits)
  from fire_load_untrimmed[OF t(2) this, of host0] obtain final where
    f: "fire_load host0 t = Inr final" by (auto simp: style0_def)
  from t f have run:
    "run TS host0 [Render 5 (30, 20), ImageLoad] (set_resolution 3 example) = Inr final"
    by simp
  from C10_manual_resolution_stops_following_renderer
       [of 3 example "[Render 5 (30, 20), ImageLoad]" TS host0 final]
    C10_manual_resolution_stops_following_renderer[of 2 example]
    run example_fields
  show ?thesis by simp
qed

end
